theory Spec2Isabelle
  imports Complex_Main "HOL-Library.Multiset"
begin

section \<open>Python strings\<close>

text \<open>
  A Python \<^verbatim>\<open>str\<close> is modelled as a \<^typ>\<open>string\<close> whose characters are the code
  points below 256. On that range \<^verbatim>\<open>str.lower\<close> maps \<^verbatim>\<open>A-Z\<close> and the Latin-1 capitals
  (192 to 222 without 215) to the code point 32 above, and \<^verbatim>\<open>str.isspace\<close> (which is also
  what \<^verbatim>\<open>\s\<close> of the \<^verbatim>\<open>re\<close> module matches on a \<^verbatim>\<open>str\<close> pattern) holds for
  9 to 13, 28 to 32, 133 and 160.
\<close>

definition is_space :: "char \<Rightarrow> bool" where
  "is_space c =
     (let n = (of_char c :: nat)
      in (9 \<le> n \<and> n \<le> 13) \<or> (28 \<le> n \<and> n \<le> 32) \<or> n = 133 \<or> n = 160)"

definition is_upper :: "char \<Rightarrow> bool" where
  "is_upper c =
     (let n = (of_char c :: nat)
      in (65 \<le> n \<and> n \<le> 90) \<or> (192 \<le> n \<and> n \<le> 214) \<or> (216 \<le> n \<and> n \<le> 222))"

definition lower_char :: "char \<Rightarrow> char" where
  "lower_char c = (if is_upper c then char_of ((of_char c :: nat) + 32) else c)"

definition py_lower :: "string \<Rightarrow> string" where
  "py_lower s = map lower_char s"

text \<open>\<^verbatim>\<open>s.strip()\<close>: whitespace removed at both ends.\<close>

definition py_strip :: "string \<Rightarrow> string" where
  "py_strip s = rev (dropWhile is_space (rev (dropWhile is_space s)))"

text \<open>
  \<^verbatim>\<open>s.split(sep)\<close> for a one-character separator: the pieces between the
  separators, empty pieces kept; the empty string gives one empty piece.
\<close>

fun py_split :: "char \<Rightarrow> string \<Rightarrow> string list" where
  "py_split sep [] = [[]]"
| "py_split sep (c # cs) =
     (if c = sep then [] # py_split sep cs
      else (case py_split sep cs of
              [] \<Rightarrow> [[c]]
            | p # ps \<Rightarrow> (c # p) # ps))"

text \<open>
  \<^verbatim>\<open>s.capitalize()\<close> on ASCII text (the program applies it to the meal-type
  keywords only): first character to upper case, the others to lower case.
\<close>

definition upper_char :: "char \<Rightarrow> char" where
  "upper_char c =
     (let n = (of_char c :: nat)
      in if 97 \<le> n \<and> n \<le> 122 then char_of (n - 32) else c)"

definition py_capitalize :: "string \<Rightarrow> string" where
  "py_capitalize s = (case s of [] \<Rightarrow> [] | c # cs \<Rightarrow> upper_char c # map lower_char cs)"

section \<open>The food catalog and \<^verbatim>\<open>calculate_nutrition\<close>\<close>

record nutrition =
  calories :: int
  protein :: int
  carbs :: int
  fiber :: int

definition food_table :: "(string \<times> nutrition) list" where
  "food_table =
    [(''Jeera Rice'', \<lparr>calories = 250, protein = 5, carbs = 45, fiber = 2\<rparr>),
     (''Dal'', \<lparr>calories = 180, protein = 12, carbs = 20, fiber = 5\<rparr>),
     (''Cucumber'', \<lparr>calories = 16, protein = 1, carbs = 4, fiber = 1\<rparr>),
     (''Roti'', \<lparr>calories = 120, protein = 3, carbs = 25, fiber = 3\<rparr>),
     (''Chicken Curry'', \<lparr>calories = 300, protein = 25, carbs = 8, fiber = 1\<rparr>),
     (''Paneer'', \<lparr>calories = 265, protein = 18, carbs = 6, fiber = 0\<rparr>),
     (''Salad'', \<lparr>calories = 25, protein = 2, carbs = 5, fiber = 3\<rparr>),
     (''Rice'', \<lparr>calories = 205, protein = 4, carbs = 45, fiber = 1\<rparr>)]"

definition food_db :: "string \<rightharpoonup> nutrition" where
  "food_db = map_of food_table"

definition zero_nutrition :: nutrition where
  "zero_nutrition = \<lparr>calories = 0, protein = 0, carbs = 0, fiber = 0\<rparr>"

text \<open>
  The inner loop \<^verbatim>\<open>for nutrient in total_nutrition: total_nutrition[nutrient] +=
  nutrition[nutrient]\<close> runs over the four keys of the running total.
\<close>

definition add_nutrition :: "nutrition \<Rightarrow> nutrition \<Rightarrow> nutrition" where
  "add_nutrition acc n =
     \<lparr>calories = calories acc + calories n,
      protein = protein acc + protein n,
      carbs = carbs acc + carbs n,
      fiber = fiber acc + fiber n\<rparr>"

text \<open>The outer loop \<^verbatim>\<open>for item in food_items\<close>, with the running total as accumulator.\<close>

fun nutrition_loop :: "nutrition \<Rightarrow> string list \<Rightarrow> nutrition" where
  "nutrition_loop acc [] = acc"
| "nutrition_loop acc (item # items) =
     nutrition_loop
       (case food_db item of
          None \<Rightarrow> acc
        | Some n \<Rightarrow> add_nutrition acc n)
       items"

definition calculate_nutrition :: "string list \<Rightarrow> nutrition" where
  "calculate_nutrition food_items = nutrition_loop zero_nutrition food_items"

text \<open>
  The reading of the specification: the catalog facts of the recognised items, one per
  occurrence, summed field by field.
\<close>

definition recognized_facts :: "string list \<Rightarrow> nutrition list" where
  "recognized_facts food_items = List.map_filter food_db food_items"

definition sum_facts :: "nutrition list \<Rightarrow> nutrition" where
  "sum_facts fs =
     \<lparr>calories = sum_list (map calories fs),
      protein = sum_list (map protein fs),
      carbs = sum_list (map carbs fs),
      fiber = sum_list (map fiber fs)\<rparr>"

section \<open>JSON values, exceptions and numbers\<close>

text \<open>
  A request body is a JSON object; Flask's \<^verbatim>\<open>get_json\<close> hands it over as a \<^verbatim>\<open>dict\<close>,
  modelled as an association list read with \<^const>\<open>map_of\<close>.

  A Python number is a \<open>pyfloat\<close>: \<open>Finite x\<close> for an \<^verbatim>\<open>int\<close> or a finite
  \<^verbatim>\<open>float\<close> of value \<open>x\<close>, or one of the three floats \<^verbatim>\<open>inf\<close>, \<^verbatim>\<open>-inf\<close> and
  \<^verbatim>\<open>nan\<close>, which \<^verbatim>\<open>json.loads\<close> accepts as \<^verbatim>\<open>Infinity\<close>, \<^verbatim>\<open>-Infinity\<close> and
  \<^verbatim>\<open>NaN\<close> and which \<^verbatim>\<open>float\<close> returns for strings such as \<^verbatim>\<open>1e999\<close> or \<^verbatim>\<open>nan\<close>.
  Arithmetic on finite values is exact; the non-finite values follow the rules of the
  floating-point standard.
\<close>

datatype pyfloat = Finite real | PosInf | NegInf | NaN

text \<open>The comparisons \<^verbatim>\<open>x <= c\<close> and \<^verbatim>\<open>x > c\<close> with a finite constant.\<close>

fun float_le :: "pyfloat \<Rightarrow> real \<Rightarrow> bool" where
  "float_le (Finite x) c = (x \<le> c)"
| "float_le PosInf c = False"
| "float_le NegInf c = True"
| "float_le NaN c = False"

fun float_gt :: "pyfloat \<Rightarrow> real \<Rightarrow> bool" where
  "float_gt (Finite x) c = (x > c)"
| "float_gt PosInf c = True"
| "float_gt NegInf c = False"
| "float_gt NaN c = False"

text \<open>The product \<^verbatim>\<open>c * x\<close> with a finite constant, the sum and the difference.\<close>

fun float_scale :: "real \<Rightarrow> pyfloat \<Rightarrow> pyfloat" where
  "float_scale c (Finite x) = Finite (c * x)"
| "float_scale c PosInf = (if c > 0 then PosInf else if c < 0 then NegInf else NaN)"
| "float_scale c NegInf = (if c > 0 then NegInf else if c < 0 then PosInf else NaN)"
| "float_scale c NaN = NaN"

fun float_add :: "pyfloat \<Rightarrow> pyfloat \<Rightarrow> pyfloat" where
  "float_add (Finite x) (Finite y) = Finite (x + y)"
| "float_add NaN y = NaN"
| "float_add x NaN = NaN"
| "float_add PosInf NegInf = NaN"
| "float_add NegInf PosInf = NaN"
| "float_add PosInf y = PosInf"
| "float_add NegInf y = NegInf"
| "float_add x PosInf = PosInf"
| "float_add x NegInf = NegInf"

fun float_neg :: "pyfloat \<Rightarrow> pyfloat" where
  "float_neg (Finite x) = Finite (- x)"
| "float_neg PosInf = NegInf"
| "float_neg NegInf = PosInf"
| "float_neg NaN = NaN"

definition float_sub :: "pyfloat \<Rightarrow> pyfloat \<Rightarrow> pyfloat" where
  "float_sub x y = float_add x (float_neg y)"

datatype json =
    JNull
  | JBool bool
  | JNum pyfloat
  | JStr string
  | JArr "json list"
  | JObj "(string \<times> json) list"

type_synonym json_dict = "(string \<times> json) list"

text \<open>
  The exceptions the modelled code can raise. The message of a \<^verbatim>\<open>ValueError\<close> is kept;
  the one \<^verbatim>\<open>float\<close> raises is abbreviated to its fixed prefix.
\<close>

datatype py_exn =
    ValueError string
  | TypeError
  | AttributeError
  | KeyError string
  | OverflowError

text \<open>
  \<^verbatim>\<open>not v\<close> is false exactly for the values below; among the numbers only zero is
  false (\<^verbatim>\<open>nan\<close> is true).
\<close>

fun truthy :: "json \<Rightarrow> bool" where
  "truthy JNull = False"
| "truthy (JBool b) = b"
| "truthy (JNum x) = (x \<noteq> Finite 0)"
| "truthy (JStr s) = (s \<noteq> [])"
| "truthy (JArr xs) = (xs \<noteq> [])"
| "truthy (JObj kvs) = (kvs \<noteq> [])"

text \<open>
  \<^verbatim>\<open>float(v)\<close>. What Python's parser makes of a string is a parameter \<open>pf\<close> of the
  model (\<open>None\<close> where \<^verbatim>\<open>float\<close> raises \<^verbatim>\<open>ValueError\<close>). A number converts to itself,
  unless it is finite and of magnitude \<open>2 ^ 1024 - 2 ^ 970\<close> or more: such a number is an
  \<^verbatim>\<open>int\<close> beyond the range of the floats, and \<^verbatim>\<open>float\<close> raises \<^verbatim>\<open>OverflowError\<close>.
  A boolean converts to 0 or 1, and \<^verbatim>\<open>None\<close>, a list or a dict raise \<^verbatim>\<open>TypeError\<close>.
\<close>

fun py_float :: "(string \<Rightarrow> pyfloat option) \<Rightarrow> json \<Rightarrow> py_exn + pyfloat" where
  "py_float pf (JStr s) =
     (case pf s of
        None \<Rightarrow> Inl (ValueError ''could not convert string to float'')
      | Some x \<Rightarrow> Inr x)"
| "py_float pf (JNum x) =
     (case x of
        Finite r \<Rightarrow> if \<bar>r\<bar> \<ge> 2 ^ 1024 - 2 ^ 970 then Inl OverflowError else Inr x
      | _ \<Rightarrow> Inr x)"
| "py_float pf (JBool b) = Inr (Finite (if b then 1 else 0))"
| "py_float pf JNull = Inl TypeError"
| "py_float pf (JArr xs) = Inl TypeError"
| "py_float pf (JObj kvs) = Inl TypeError"

text \<open>
  A concrete reading of decimal strings, for running the model: surrounding whitespace,
  an optional sign, digits, and an optional fraction, read as the exact decimal value. It
  stands for \<open>pf\<close> where the model is run on an example with short strings of digits,
  and is \<open>None\<close> on the other forms \<^verbatim>\<open>float\<close> accepts (exponents, underscores,
  \<^verbatim>\<open>inf\<close>, \<^verbatim>\<open>nan\<close>).
\<close>

definition is_digit :: "char \<Rightarrow> bool" where
  "is_digit c = (let n = (of_char c :: nat) in 48 \<le> n \<and> n \<le> 57)"

definition digit_val :: "char \<Rightarrow> nat" where
  "digit_val c = of_char c - 48"

definition digits_val :: "string \<Rightarrow> nat" where
  "digits_val ds = foldl (\<lambda>acc c. 10 * acc + digit_val c) 0 ds"

definition unsigned_decimal :: "string \<Rightarrow> real option" where
  "unsigned_decimal s =
     (let ip = takeWhile is_digit s; r = dropWhile is_digit s
      in case r of
           [] \<Rightarrow> (if ip = [] then None else Some (real (digits_val ip)))
         | c # fp \<Rightarrow>
             (if c = CHR ''.'' \<and> list_all is_digit fp \<and> (ip \<noteq> [] \<or> fp \<noteq> [])
              then Some (real (digits_val ip) + real (digits_val fp) / 10 ^ length fp)
              else None))"

definition decimal_float :: "string \<Rightarrow> pyfloat option" where
  "decimal_float s =
     (case py_strip s of
        [] \<Rightarrow> None
      | c # cs \<Rightarrow>
          (if c = CHR ''-'' then map_option (\<lambda>x. Finite (- x)) (unsigned_decimal cs)
           else if c = CHR ''+'' then map_option Finite (unsigned_decimal cs)
           else map_option Finite (unsigned_decimal (c # cs))))"

section \<open>\<^verbatim>\<open>calculate_bmr\<close>\<close>

text \<open>
  The two formulas are \<^verbatim>\<open>c0 + (c1 * weight) + (c2 * height) - (c3 * age)\<close>, evaluated
  from left to right.
\<close>

definition calculate_bmr ::
  "string \<Rightarrow> pyfloat \<Rightarrow> pyfloat \<Rightarrow> pyfloat \<Rightarrow> py_exn + pyfloat" where
  "calculate_bmr gender weight height age =
     (if py_lower gender = ''male'' then
        Inr (float_sub
               (float_add (float_add (Finite 88.362) (float_scale 13.397 weight))
                  (float_scale 4.799 height))
               (float_scale 5.677 age))
      else if py_lower gender = ''female'' then
        Inr (float_sub
               (float_add (float_add (Finite 447.593) (float_scale 9.247 weight))
                  (float_scale 3.098 height))
               (float_scale 4.33 age))
      else Inl (ValueError (''Gender must be 'male' or 'female'' @ [CHR 0x27])))"

text \<open>
  \<^verbatim>\<open>round(x, 2)\<close>. Python rounds the binary value of the float, which the exact value
  does not determine at a tie: what \<^verbatim>\<open>round\<close> makes of a finite float is a parameter
  \<open>rnd\<close> of the model. A non-finite float is returned as it is.
\<close>

definition py_round2 :: "(real \<Rightarrow> real) \<Rightarrow> pyfloat \<Rightarrow> pyfloat" where
  "py_round2 rnd x = (case x of Finite r \<Rightarrow> Finite (rnd r) | _ \<Rightarrow> x)"

text \<open>
  The nearest multiple of one hundredth (the upper one at a tie of the exact value). It
  stands for \<open>rnd\<close> where the model is run on an example, none of which is a tie.
\<close>

definition round2 :: "real \<Rightarrow> real" where
  "round2 x = of_int (round (x * 100)) / 100"

definition is_rounded2 :: "real \<Rightarrow> bool" where
  "is_rounded2 x = (frac (x * 100) = 0)"

section \<open>\<^verbatim>\<open>validate_user_data\<close>\<close>

definition required_fields :: "string list" where
  "required_fields = [''name'', ''age'', ''weight'', ''height'', ''gender'', ''goal'']"

text \<open>The loop over the required fields, appending to \<^verbatim>\<open>errors\<close>.\<close>

fun required_loop :: "json_dict \<Rightarrow> string list \<Rightarrow> string list \<Rightarrow> string list" where
  "required_loop data errors [] = errors"
| "required_loop data errors (field # rest) =
     required_loop data
       (case map_of data field of
          None \<Rightarrow> errors @ [field @ '' is required'']
        | Some v \<Rightarrow> if truthy v then errors else errors @ [field @ '' is required''])
       rest"

text \<open>
  One of the three blocks \<^verbatim>\<open>if field in data: try: x = float(data[field]); if x <= 0 or
  x > hi: errors.append(range_msg) except ValueError: errors.append(number_msg)\<close>. An
  exception other than \<^verbatim>\<open>ValueError\<close> leaves the function.
\<close>

definition check_number ::
  "(string \<Rightarrow> pyfloat option) \<Rightarrow> json_dict \<Rightarrow> string \<Rightarrow> real \<Rightarrow> string \<Rightarrow> string \<Rightarrow>
   string list \<Rightarrow> py_exn + string list" where
  "check_number pf data field hi range_msg number_msg errors =
     (case map_of data field of
        None \<Rightarrow> Inr errors
      | Some v \<Rightarrow>
          (case py_float pf v of
             Inr x \<Rightarrow>
               if float_le x 0 \<or> float_gt x hi then Inr (errors @ [range_msg])
               else Inr errors
           | Inl (ValueError m) \<Rightarrow> Inr (errors @ [number_msg])
           | Inl e \<Rightarrow> Inl e))"

text \<open>
  \<^verbatim>\<open>if 'gender' in data and data['gender'].lower() not in ['male', 'female']\<close>; a value
  that is not a string has no \<^verbatim>\<open>lower\<close>.
\<close>

definition check_gender :: "json_dict \<Rightarrow> string list \<Rightarrow> py_exn + string list" where
  "check_gender data errors =
     (case map_of data ''gender'' of
        None \<Rightarrow> Inr errors
      | Some (JStr g) \<Rightarrow>
          if py_lower g \<in> set [''male'', ''female''] then Inr errors
          else Inr (errors @ [(''Gender must be 'male' or 'female'' @ [CHR 0x27])])
      | Some v \<Rightarrow> Inl AttributeError)"

definition validate_user_data ::
  "(string \<Rightarrow> pyfloat option) \<Rightarrow> json_dict \<Rightarrow> py_exn + string list" where
  "validate_user_data pf data =
     (case check_number pf data ''age'' 150
             ''Age must be between 1 and 150'' ''Age must be a valid number''
             (required_loop data [] required_fields) of
        Inl e \<Rightarrow> Inl e
      | Inr errors1 \<Rightarrow>
     (case check_number pf data ''weight'' 500
             ''Weight must be between 1 and 500 kg'' ''Weight must be a valid number''
             errors1 of
        Inl e \<Rightarrow> Inl e
      | Inr errors2 \<Rightarrow>
     (case check_number pf data ''height'' 300
             ''Height must be between 1 and 300 cm'' ''Height must be a valid number''
             errors2 of
        Inl e \<Rightarrow> Inl e
      | Inr errors3 \<Rightarrow> check_gender data errors3)))"

section \<open>The stores and the \<^verbatim>\<open>/register\<close> endpoint\<close>

text \<open>
  \<^verbatim>\<open>users_db\<close> is a dict. \<^verbatim>\<open>/register\<close> stores under a string, \<^verbatim>\<open>/webhook\<close> under
  whatever JSON value the request gave as \<^verbatim>\<open>user\<close>, so the keys are JSON values: a list
  or a dict cannot be a key (\<^verbatim>\<open>TypeError\<close>), and a boolean is the same key as 0 or 1.
  An \<^verbatim>\<open>int\<close> and a \<^verbatim>\<open>float\<close> of the same value are the same key, as they are the
  same \<open>Finite x\<close>; the \<^verbatim>\<open>NaN\<close> of \<^verbatim>\<open>json.loads\<close> is one object and is found again
  as a key.
\<close>

record user_record =
  name :: json
  age :: pyfloat
  weight :: pyfloat
  height :: pyfloat
  gender :: string
  goal :: json
  bmr :: pyfloat
  registered_at :: string

record meal_entry =
  userId :: json
  mealType :: string
  foodItems :: "string list"
  nutrition :: nutrition
  loggedAt :: string

record state =
  users_db :: "json \<rightharpoonup> user_record"
  meals_db :: "meal_entry list"

fun dict_key :: "json \<Rightarrow> py_exn + json" where
  "dict_key (JArr xs) = Inl TypeError"
| "dict_key (JObj kvs) = Inl TypeError"
| "dict_key (JBool b) = Inr (JNum (Finite (if b then 1 else 0)))"
| "dict_key v = Inr v"

text \<open>The responses of the two endpoints, with their HTTP status.\<close>

datatype response =
    NoData
  | ValidationFailed "string list"
  | Conflict
  | Registered user_record
  | MessageRequired
  | InvalidFormat
  | MealLogged string "string list" nutrition
  | ServerError py_exn

fun status_code :: "response \<Rightarrow> nat" where
  "status_code NoData = 400"
| "status_code (ValidationFailed details) = 400"
| "status_code Conflict = 409"
| "status_code (Registered u) = 201"
| "status_code MessageRequired = 400"
| "status_code InvalidFormat = 400"
| "status_code (MealLogged mt items n) = 201"
| "status_code (ServerError e) = 500"

text \<open>\<^verbatim>\<open>data[k]\<close>, and the two string methods called on a request value.\<close>

definition get_item :: "json_dict \<Rightarrow> string \<Rightarrow> py_exn + json" where
  "get_item data k = (case map_of data k of None \<Rightarrow> Inl (KeyError k) | Some v \<Rightarrow> Inr v)"

fun str_of :: "json \<Rightarrow> py_exn + string" where
  "str_of (JStr s) = Inr s"
| "str_of v = Inl AttributeError"

definition float_item ::
  "(string \<Rightarrow> pyfloat option) \<Rightarrow> json_dict \<Rightarrow> string \<Rightarrow> py_exn + pyfloat" where
  "float_item pf data k = (case get_item data k of Inl e \<Rightarrow> Inl e | Inr v \<Rightarrow> py_float pf v)"

definition str_item :: "json_dict \<Rightarrow> string \<Rightarrow> py_exn + string" where
  "str_item data k = (case get_item data k of Inl e \<Rightarrow> Inl e | Inr v \<Rightarrow> str_of v)"

text \<open>
  The part of \<^verbatim>\<open>register_user\<close> after the conflict check: the arguments of
  \<^verbatim>\<open>calculate_bmr\<close> in the order Python evaluates them, the call (whose first step is
  \<^verbatim>\<open>gender.lower()\<close>), and the record with \<^verbatim>\<open>round(bmr, 2)\<close>. Every exception ends
  in the handler of the endpoint, before the store is written. \<open>pf\<close> and \<open>rnd\<close> are
  Python's \<^verbatim>\<open>float\<close> on strings and \<^verbatim>\<open>round\<close> to two digits, \<open>now\<close> is
  \<^verbatim>\<open>datetime.now().isoformat()\<close>; writing the files is taken to succeed.
\<close>

definition create_user ::
  "(string \<Rightarrow> pyfloat option) \<Rightarrow> (real \<Rightarrow> real) \<Rightarrow> string \<Rightarrow> json_dict \<Rightarrow> string \<Rightarrow>
   py_exn + user_record" where
  "create_user pf rnd now data username =
     (case get_item data ''gender'' of Inl e \<Rightarrow> Inl e | Inr gv \<Rightarrow>
     (case float_item pf data ''weight'' of Inl e \<Rightarrow> Inl e | Inr w \<Rightarrow>
     (case float_item pf data ''height'' of Inl e \<Rightarrow> Inl e | Inr h \<Rightarrow>
     (case float_item pf data ''age'' of Inl e \<Rightarrow> Inl e | Inr a \<Rightarrow>
     (case str_of gv of Inl e \<Rightarrow> Inl e | Inr g \<Rightarrow>
     (case calculate_bmr g w h a of Inl e \<Rightarrow> Inl e | Inr b \<Rightarrow>
     (case get_item data ''goal'' of Inl e \<Rightarrow> Inl e | Inr gl \<Rightarrow>
        Inr \<lparr>name = JStr username, age = a, weight = w, height = h,
             gender = py_lower g, goal = gl, bmr = py_round2 rnd b,
             registered_at = now\<rparr>)))))))"

definition register_user ::
  "(string \<Rightarrow> pyfloat option) \<Rightarrow> (real \<Rightarrow> real) \<Rightarrow> string \<Rightarrow> state \<Rightarrow> json_dict \<Rightarrow>
   response \<times> state" where
  "register_user pf rnd now s data =
     (if data = [] then (NoData, s)
      else case validate_user_data pf data of
        Inl e \<Rightarrow> (ServerError e, s)
      | Inr validation_errors \<Rightarrow>
          if validation_errors \<noteq> [] then (ValidationFailed validation_errors, s)
          else (case str_item data ''name'' of
             Inl e \<Rightarrow> (ServerError e, s)
           | Inr nm \<Rightarrow>
               let username = py_strip nm in
               if users_db s (JStr username) \<noteq> None then (Conflict, s)
               else (case create_user pf rnd now data username of
                  Inl e \<Rightarrow> (ServerError e, s)
                | Inr user_data \<Rightarrow>
                    (Registered user_data,
                     s\<lparr>users_db := (users_db s)(JStr username \<mapsto> user_data)\<rparr>))))"

section \<open>The \<^verbatim>\<open>/webhook\<close> endpoint\<close>

text \<open>
  \<^verbatim>\<open>re.match(r'log\s+(breakfast|lunch|dinner|snack):\s*(.+)', message)\<close>, written out.
  The match starts at the first character and need not reach the end; \<^verbatim>\<open>.\<close> matches
  every character but the newline.
\<close>

definition newline :: char where
  "newline = char_of (10 :: nat)"

definition strip_prefix :: "string \<Rightarrow> string \<Rightarrow> string option" where
  "strip_prefix p s = (if take (length p) s = p then Some (drop (length p) s) else None)"

definition meal_types :: "string list" where
  "meal_types = [''breakfast'', ''lunch'', ''dinner'', ''snack'']"

text \<open>The alternation followed by the colon: the first keyword that fits.\<close>

fun match_meal_type :: "string list \<Rightarrow> string \<Rightarrow> (string \<times> string) option" where
  "match_meal_type [] s = None"
| "match_meal_type (kw # kws) s =
     (case strip_prefix (kw @ '':'') s of
        Some r \<Rightarrow> Some (kw, r)
      | None \<Rightarrow> match_meal_type kws s)"

text \<open>
  \<^verbatim>\<open>\s*(.+)\<close>: the whitespace run is greedy and gives characters back, one at a time,
  when nothing is left for the group; the group then runs to the next newline.
\<close>

fun match_items :: "string \<Rightarrow> string option" where
  "match_items [] = None"
| "match_items (c # cs) =
     (if is_space c then
        (case match_items cs of
           Some g \<Rightarrow> Some g
         | None \<Rightarrow> if c \<noteq> newline then Some (takeWhile (\<lambda>d. d \<noteq> newline) (c # cs)) else None)
      else Some (takeWhile (\<lambda>d. d \<noteq> newline) (c # cs)))"

definition match_pattern :: "string \<Rightarrow> (string \<times> string) option" where
  "match_pattern message =
     (case strip_prefix ''log'' message of
        None \<Rightarrow> None
      | Some r \<Rightarrow>
          (if takeWhile is_space r = [] then None
           else (case match_meal_type meal_types (dropWhile is_space r) of
              None \<Rightarrow> None
            | Some (meal_type, r') \<Rightarrow>
                (case match_items r' of
                   None \<Rightarrow> None
                 | Some food_items_str \<Rightarrow> Some (meal_type, food_items_str)))))"

text \<open>
  The parser of the endpoint: \<^verbatim>\<open>message.strip().lower()\<close>, the match, the split at the
  commas, each piece stripped.
\<close>

definition parse_message :: "string \<Rightarrow> (string \<times> string list) option" where
  "parse_message raw =
     (case match_pattern (py_lower (py_strip raw)) of
        None \<Rightarrow> None
      | Some (meal_type, food_items_str) \<Rightarrow>
          Some (meal_type, map py_strip (py_split CHR '','' food_items_str)))"

definition default_user :: "string \<Rightarrow> json \<Rightarrow> py_exn + user_record" where
  "default_user now user =
     (case calculate_bmr ''male'' (Finite 70) (Finite 170) (Finite 25) of
        Inl e \<Rightarrow> Inl e
      | Inr b \<Rightarrow>
          Inr \<lparr>name = user, age = Finite 25, weight = Finite 70, height = Finite 170,
               gender = ''male'',
               goal = JStr ''maintain'', bmr = b, registered_at = now\<rparr>)"

definition provision_user :: "string \<Rightarrow> state \<Rightarrow> json \<Rightarrow> py_exn + state" where
  "provision_user now s user =
     (case dict_key user of
        Inl e \<Rightarrow> Inl e
      | Inr k \<Rightarrow>
          if users_db s k \<noteq> None then Inr s
          else (case default_user now user of
             Inl e \<Rightarrow> Inl e
           | Inr u \<Rightarrow> Inr (s\<lparr>users_db := (users_db s)(k \<mapsto> u)\<rparr>)))"

definition empty_state :: state where
  "empty_state = \<lparr>users_db = Map.empty, meals_db = []\<rparr>"

text \<open>\<^verbatim>\<open>sep.join(pieces)\<close>, the inverse of the split.\<close>

fun py_join :: "string \<Rightarrow> string list \<Rightarrow> string" where
  "py_join sep [] = []"
| "py_join sep [p] = p"
| "py_join sep (p # q # ps) = p @ sep @ py_join sep (q # ps)"

definition webhook :: "string \<Rightarrow> state \<Rightarrow> json_dict \<Rightarrow> response \<times> state" where
  "webhook now s data =
     (case map_of data ''message'' of
        None \<Rightarrow> (MessageRequired, s)
      | Some m \<Rightarrow>
     (case str_of m of
        Inl e \<Rightarrow> (ServerError e, s)
      | Inr raw \<Rightarrow>
          let user = (case map_of data ''user'' of None \<Rightarrow> JStr ''default_user'' | Some u \<Rightarrow> u) in
          (case parse_message raw of
             None \<Rightarrow> (InvalidFormat, s)
           | Some (meal_type, food_items) \<Rightarrow>
               (case provision_user now s user of
                  Inl e \<Rightarrow> (ServerError e, s)
                | Inr s1 \<Rightarrow>
                    let n = calculate_nutrition food_items;
                        meal = \<lparr>userId = user, mealType = py_capitalize meal_type,
                                foodItems = food_items, nutrition = n, loggedAt = now\<rparr>
                    in (MealLogged meal_type food_items n,
                        s1\<lparr>meals_db := meals_db s1 @ [meal]\<rparr>)))))"

section \<open>An example registration\<close>

definition bob_request :: json_dict where
  "bob_request =
     [(''name'', JStr ''bob''), (''age'', JNum (Finite 30)), (''weight'', JNum (Finite 70)),
      (''height'', JNum (Finite 170)), (''gender'', JStr ''male''), (''goal'', JStr ''lose'')]"

definition bob_record :: user_record where
  "bob_record =
     \<lparr>name = JStr ''bob'', age = Finite 30, weight = Finite 70, height = Finite 170,
      gender = ''male'', goal = JStr ''lose'', bmr = Finite 1671.67,
      registered_at = ''2024-05-01T12:00:00''\<rparr>"

section \<open>Aggregation\<close>

lemma nutrition_loop_sum:
  "nutrition_loop acc food_items = add_nutrition acc (sum_facts (recognized_facts food_items))"
proof (induction food_items arbitrary: acc)
  case Nil
  show ?case
    by (simp add: recognized_facts_def add_nutrition_def sum_facts_def)
next
  case (Cons item items)
  show ?case
  proof (cases "food_db item")
    case None
    then show ?thesis
      using Cons.IH [of acc]
      by (simp add: recognized_facts_def)
  next
    case (Some n)
    then show ?thesis
      using Cons.IH [of "add_nutrition acc n"]
      by (simp add: recognized_facts_def add_nutrition_def sum_facts_def)
  qed
qed

lemma calculate_nutrition_sum:
  "calculate_nutrition food_items = sum_facts (recognized_facts food_items)"
  by (simp add: calculate_nutrition_def nutrition_loop_sum add_nutrition_def
      zero_nutrition_def sum_facts_def)

lemma recognized_facts_mset:
  "mset xs = mset ys \<Longrightarrow> mset (recognized_facts xs) = mset (recognized_facts ys)"
  by (simp add: recognized_facts_def List.map_filter_def)

lemma sum_facts_mset:
  assumes "mset fs = mset gs"
  shows "sum_facts fs = sum_facts gs"
proof -
  have "sum_list (map f fs) = sum_list (map f gs)" for f :: "nutrition \<Rightarrow> int"
  proof -
    have "sum_mset (mset (map f fs)) = sum_mset (mset (map f gs))"
      using assms by simp
    then show ?thesis
      by (simp only: sum_mset_sum_list)
  qed
  then show ?thesis
    by (simp add: sum_facts_def)
qed

lemma recognized_facts_unknown:
  "\<forall>x\<in>set xs. food_db x = None \<Longrightarrow> recognized_facts xs = []"
  by (induction xs) (simp_all add: recognized_facts_def List.map_filter_simps)

lemma recognized_facts_append:
  "recognized_facts (xs @ ys) = recognized_facts xs @ recognized_facts ys"
  by (simp add: recognized_facts_def List.map_filter_def)

lemma sum_facts_Nil: "sum_facts [] = zero_nutrition"
  by (simp add: sum_facts_def zero_nutrition_def)

lemma sum_facts_append: "sum_facts (fs @ gs) = add_nutrition (sum_facts fs) (sum_facts gs)"
  by (simp add: sum_facts_def add_nutrition_def)

text \<open>
  Claim C4. For every list of item names, \<^const>\<open>calculate_nutrition\<close> returns the
  field-by-field sum of the catalog facts of the items that are in the catalog, one
  summand per occurrence: the result of a concatenation is the sum of the results of its
  parts, an item outside the catalog gives zero in every field, an item of the catalog
  gives its facts. The function is total on lists of strings: there is no input on which
  it raises.
\<close>

theorem calculate_nutrition_elementwise_sum:
  "calculate_nutrition food_items = sum_facts (recognized_facts food_items)
   \<and> calculate_nutrition (xs @ ys) =
       add_nutrition (calculate_nutrition xs) (calculate_nutrition ys)
   \<and> (food_db item = None \<longrightarrow> calculate_nutrition [item] = zero_nutrition)
   \<and> (\<forall>n. food_db item = Some n \<longrightarrow> calculate_nutrition [item] = n)"
  by (simp add: calculate_nutrition_sum recognized_facts_append sum_facts_append)
     (simp add: recognized_facts_def List.map_filter_simps sum_facts_def zero_nutrition_def)

theorem calculate_nutrition_elementwise_sum_witness:
  "calculate_nutrition [''Dal'', ''Pizza'', ''Dal''] =
     \<lparr>calories = 360, protein = 24, carbs = 40, fiber = 10\<rparr>
   \<and> food_db ''Pizza'' = None \<and> calculate_nutrition [''Pizza''] = zero_nutrition"
  using calculate_nutrition_elementwise_sum
          [of "[''Dal'', ''Pizza'', ''Dal'']" "[]" "[]" "''Pizza''"]
  by (simp add: recognized_facts_def List.map_filter_simps sum_facts_def food_db_def
      food_table_def zero_nutrition_def)

text \<open>
  Claim C6. Two lists that are permutations of each other (the same multiset of names)
  have equal totals; the empty list has all-zero totals; a list of names none of which is
  in the catalog has all-zero totals.
\<close>

theorem calculate_nutrition_permutation:
  "(mset xs = mset ys \<longrightarrow> calculate_nutrition xs = calculate_nutrition ys)
   \<and> calculate_nutrition [] = zero_nutrition
   \<and> ((\<forall>x\<in>set xs. food_db x = None) \<longrightarrow> calculate_nutrition xs = zero_nutrition)"
proof (intro conjI impI)
  assume "mset xs = mset ys"
  then have "mset (recognized_facts xs) = mset (recognized_facts ys)"
    by (rule recognized_facts_mset)
  then have "sum_facts (recognized_facts xs) = sum_facts (recognized_facts ys)"
    by (rule sum_facts_mset)
  then show "calculate_nutrition xs = calculate_nutrition ys"
    by (simp only: calculate_nutrition_sum)
next
  show "calculate_nutrition [] = zero_nutrition"
    by (simp add: calculate_nutrition_def)
next
  assume "\<forall>x\<in>set xs. food_db x = None"
  then have "recognized_facts xs = []"
    by (rule recognized_facts_unknown)
  then show "calculate_nutrition xs = zero_nutrition"
    by (simp add: calculate_nutrition_sum sum_facts_Nil)
qed

theorem calculate_nutrition_permutation_witness:
  "mset [''Dal'', ''Rice'', ''Dal''] = mset [''Rice'', ''Dal'', ''Dal'']
   \<and> calculate_nutrition [''Dal'', ''Rice'', ''Dal''] =
       calculate_nutrition [''Rice'', ''Dal'', ''Dal'']
   \<and> food_db ''dal'' = None \<and> food_db ''Pizza'' = None
   \<and> calculate_nutrition [''dal'', ''Pizza''] = zero_nutrition"
proof -
  have p: "mset [''Dal'', ''Rice'', ''Dal''] = mset [''Rice'', ''Dal'', ''Dal'']"
    by simp
  have u: "\<forall>x\<in>set [''dal'', ''Pizza'']. food_db x = None"
    by (simp add: food_db_def food_table_def)
  then have v: "food_db ''dal'' = None \<and> food_db ''Pizza'' = None"
    by simp
  show ?thesis
    using p u v
      calculate_nutrition_permutation
        [of "[''Dal'', ''Rice'', ''Dal'']" "[''Rice'', ''Dal'', ''Dal'']"]
      calculate_nutrition_permutation [of "[''dal'', ''Pizza'']" "[]"]
    by blast
qed

section \<open>The example message of the webhook\<close>

text \<open>
  Claim C1, evaluated on the program. The webhook lowercases the whole message before it
  splits the items, so the example message is parsed to the meal type \<open>lunch\<close> and the
  items \<open>jeera rice\<close>, \<open>dal\<close>, \<open>cucumber\<close>; none of them is a key of the catalog
  and their totals are zero. The items in their original casing would give the totals
  446, 18, 69, 8.
\<close>

theorem webhook_example_items_lowercased:
  "parse_message ''Log Lunch: Jeera Rice, Dal, Cucumber'' =
     Some (''lunch'', [''jeera rice'', ''dal'', ''cucumber''])
   \<and> calculate_nutrition [''jeera rice'', ''dal'', ''cucumber''] = zero_nutrition
   \<and> calculate_nutrition [''Jeera Rice'', ''Dal'', ''Cucumber''] =
       \<lparr>calories = 446, protein = 18, carbs = 69, fiber = 8\<rparr>"
proof (intro conjI)
  show "parse_message ''Log Lunch: Jeera Rice, Dal, Cucumber'' =
     Some (''lunch'', [''jeera rice'', ''dal'', ''cucumber''])"
    by code_simp
  show "calculate_nutrition [''jeera rice'', ''dal'', ''cucumber''] = zero_nutrition"
    by (simp add: calculate_nutrition_def food_db_def food_table_def)
  show "calculate_nutrition [''Jeera Rice'', ''Dal'', ''Cucumber''] =
       \<lparr>calories = 446, protein = 18, carbs = 69, fiber = 8\<rparr>"
    by (simp add: calculate_nutrition_def food_db_def food_table_def add_nutrition_def
        zero_nutrition_def)
qed

section \<open>Validation\<close>

text \<open>
  Claim C8. The validation of the empty mapping returns exactly the six messages
  \<open>name is required\<close>, \<open>age is required\<close>, \<open>weight is required\<close>,
  \<open>height is required\<close>, \<open>gender is required\<close>, \<open>goal is required\<close>, in this
  order, whatever \<^verbatim>\<open>float\<close> does on strings.
\<close>

theorem validate_empty_mapping:
  "validate_user_data pf [] =
     Inr [''name is required'', ''age is required'', ''weight is required'',
          ''height is required'', ''gender is required'', ''goal is required'']"
  by (simp add: validate_user_data_def check_number_def check_gender_def required_fields_def)

theorem validate_empty_mapping_witness:
  "validate_user_data decimal_float [] =
     Inr [''name is required'', ''age is required'', ''weight is required'',
          ''height is required'', ''gender is required'', ''goal is required'']
   \<and> length (projr (validate_user_data decimal_float [])) = 6"
  using validate_empty_mapping [of decimal_float]
  by simp

lemma required_loop_set:
  "set (required_loop data errs fs) \<subseteq> set errs \<union> (\<lambda>f. f @ '' is required'') ` set fs"
proof (induction fs arbitrary: errs)
  case Nil
  show ?case by simp
next
  case (Cons f fs)
  show ?case
    using Cons.IH [of "errs"] Cons.IH [of "errs @ [f @ '' is required'']"]
    by (auto split: option.splits)
qed

lemma required_messages:
  "set (required_loop data [] required_fields) \<subseteq>
     {''name is required'', ''age is required'', ''weight is required'',
      ''height is required'', ''gender is required'', ''goal is required''}"
  using required_loop_set [of data "[]" required_fields]
  by (simp add: required_fields_def)

lemma check_number_result:
  assumes "check_number pf data field hi range_msg number_msg errs = Inr errs'"
  shows "errs' = errs \<or> errs' = errs @ [range_msg] \<or> errs' = errs @ [number_msg]"
  using assms
  by (auto simp add: check_number_def split: option.splits sum.splits py_exn.splits if_splits)

lemma check_gender_result:
  assumes "check_gender data errs = Inr errs'"
  shows "errs' = errs \<or> errs' = errs @ [''Gender must be 'male' or 'female'' @ [CHR 0x27]]"
  using assms
  by (auto simp add: check_gender_def split: option.splits json.splits if_splits)

text \<open>
  What one numeric block appends, exactly: the range message when the field is present,
  \<^verbatim>\<open>float\<close> returns and the value is outside the range; the number message when the
  field is present and \<^verbatim>\<open>float\<close> raises \<^verbatim>\<open>ValueError\<close>; nothing otherwise.
\<close>

lemma check_number_exact:
  assumes "check_number pf data field hi range_msg number_msg errs = Inr errs'"
  shows "errs' = errs @
     (if (\<exists>v x. map_of data field = Some v \<and> py_float pf v = Inr x
            \<and> (float_le x 0 \<or> float_gt x hi)) then [range_msg]
      else if (\<exists>v m. map_of data field = Some v \<and> py_float pf v = Inl (ValueError m))
      then [number_msg]
      else [])"
proof (cases "map_of data field")
  case None
  then show ?thesis
    using assms by (simp add: check_number_def)
next
  case (Some v)
  show ?thesis
  proof (cases "py_float pf v")
    case (Inr x)
    then show ?thesis
      using assms Some by (auto simp add: check_number_def split: if_splits)
  next
    case (Inl e)
    then show ?thesis
      using assms Some by (cases e) (simp_all add: check_number_def)
  qed
qed

lemma mem_number_block:
  assumes "range_msg \<noteq> number_msg"
  shows "range_msg \<in> set (if R then [range_msg] else if N then [number_msg] else []) \<longleftrightarrow> R"
    and "number_msg \<in> set (if R then [range_msg] else if N then [number_msg] else [])
           \<longleftrightarrow> \<not> R \<and> N"
  using assms by auto

lemma not_mem_number_block:
  assumes "m \<noteq> range_msg" and "m \<noteq> number_msg"
  shows "m \<notin> set (if R then [range_msg] else if N then [number_msg] else [])"
  using assms by auto

lemma py_float_not_both:
  "\<not> ((\<exists>v x. map_of data field = Some v \<and> py_float pf v = Inr x \<and> P x)
      \<and> (\<exists>v m. map_of data field = Some v \<and> py_float pf v = Inl (ValueError m)))"
  by auto

lemma validate_user_data_Inr:
  assumes "validate_user_data pf data = Inr errors"
  shows "\<exists>e1 e2 e3.
     check_number pf data ''age'' 150
       ''Age must be between 1 and 150'' ''Age must be a valid number''
       (required_loop data [] required_fields) = Inr e1
   \<and> check_number pf data ''weight'' 500
       ''Weight must be between 1 and 500 kg'' ''Weight must be a valid number'' e1 = Inr e2
   \<and> check_number pf data ''height'' 300
       ''Height must be between 1 and 300 cm'' ''Height must be a valid number'' e2 = Inr e3
   \<and> check_gender data e3 = Inr errors"
  using assms
  by (simp add: validate_user_data_def split: sum.splits)

lemma validate_messages_shape:
  assumes "validate_user_data pf data = Inr errors"
  shows "\<exists>a w h g.
     errors = required_loop data [] required_fields @ a @ w @ h @ g
   \<and> a \<in> {[], [''Age must be between 1 and 150''], [''Age must be a valid number'']}
   \<and> w \<in> {[], [''Weight must be between 1 and 500 kg''], [''Weight must be a valid number'']}
   \<and> h \<in> {[], [''Height must be between 1 and 300 cm''], [''Height must be a valid number'']}
   \<and> g \<in> {[], [''Gender must be 'male' or 'female'' @ [CHR 0x27]]}"
proof -
  obtain e1 e2 e3 where
    a: "check_number pf data ''age'' 150
       ''Age must be between 1 and 150'' ''Age must be a valid number''
       (required_loop data [] required_fields) = Inr e1"
    and w: "check_number pf data ''weight'' 500
       ''Weight must be between 1 and 500 kg'' ''Weight must be a valid number'' e1 = Inr e2"
    and h: "check_number pf data ''height'' 300
       ''Height must be between 1 and 300 cm'' ''Height must be a valid number'' e2 = Inr e3"
    and g: "check_gender data e3 = Inr errors"
    using validate_user_data_Inr [OF assms] by blast
  obtain xa where xa: "e1 = required_loop data [] required_fields @ xa"
    "xa \<in> {[], [''Age must be between 1 and 150''], [''Age must be a valid number'']}"
    using check_number_result [OF a] by auto
  obtain xw where xw: "e2 = e1 @ xw"
    "xw \<in> {[], [''Weight must be between 1 and 500 kg''], [''Weight must be a valid number'']}"
    using check_number_result [OF w] by auto
  obtain xh where xh: "e3 = e2 @ xh"
    "xh \<in> {[], [''Height must be between 1 and 300 cm''], [''Height must be a valid number'']}"
    using check_number_result [OF h] by auto
  obtain xg where xg: "errors = e3 @ xg"
    "xg \<in> {[], [''Gender must be 'male' or 'female'' @ [CHR 0x27]]}"
    using check_gender_result [OF g] by auto
  have "errors = required_loop data [] required_fields @ xa @ xw @ xh @ xg"
    using xa(1) xw(1) xh(1) xg(1) by simp
  then show ?thesis
    using xa(2) xw(2) xh(2) xg(2) by blast
qed

lemma count_list_outside:
  "set xs \<subseteq> S \<Longrightarrow> m \<notin> S \<Longrightarrow> count_list xs m = 0"
  by (auto simp add: count_list_0_iff)

lemma count_required_zero:
  assumes "m \<notin> {''name is required'', ''age is required'', ''weight is required'',
      ''height is required'', ''gender is required'', ''goal is required''}"
  shows "count_list (required_loop data [] required_fields) m = 0"
  by (rule count_list_outside [OF required_messages assms])

lemma py_lower_male: "py_lower ''male'' = ''male''"
  by code_simp

lemma validate_number_messages:
  assumes "validate_user_data pf data = Inr errors"
  shows "count_list errors ''Age must be a valid number'' +
         count_list errors ''Age must be between 1 and 150'' \<le> 1"
   and "count_list errors ''Weight must be a valid number'' +
         count_list errors ''Weight must be between 1 and 500 kg'' \<le> 1"
   and "count_list errors ''Height must be a valid number'' +
         count_list errors ''Height must be between 1 and 300 cm'' \<le> 1"
proof -
  obtain a w h g where sh:
    "errors = required_loop data [] required_fields @ a @ w @ h @ g"
    "a \<in> {[], [''Age must be between 1 and 150''], [''Age must be a valid number'']}"
    "w \<in> {[], [''Weight must be between 1 and 500 kg''], [''Weight must be a valid number'']}"
    "h \<in> {[], [''Height must be between 1 and 300 cm''], [''Height must be a valid number'']}"
    "g \<in> {[], [''Gender must be 'male' or 'female'' @ [CHR 0x27]]}"
    using validate_messages_shape [OF assms] by blast
  have r: "count_list (required_loop data [] required_fields) ''Age must be a valid number'' = 0"
      "count_list (required_loop data [] required_fields) ''Age must be between 1 and 150'' = 0"
      "count_list (required_loop data [] required_fields) ''Weight must be a valid number'' = 0"
      "count_list (required_loop data [] required_fields) ''Weight must be between 1 and 500 kg'' = 0"
      "count_list (required_loop data [] required_fields) ''Height must be a valid number'' = 0"
      "count_list (required_loop data [] required_fields) ''Height must be between 1 and 300 cm'' = 0"
    by (rule count_required_zero, simp)+
  show "count_list errors ''Age must be a valid number'' +
         count_list errors ''Age must be between 1 and 150'' \<le> 1"
    using sh(2-5) by (auto simp add: sh(1) r)
  show "count_list errors ''Weight must be a valid number'' +
         count_list errors ''Weight must be between 1 and 500 kg'' \<le> 1"
    using sh(2-5) by (auto simp add: sh(1) r)
  show "count_list errors ''Height must be a valid number'' +
         count_list errors ''Height must be between 1 and 300 cm'' \<le> 1"
    using sh(2-5) by (auto simp add: sh(1) r)
qed

lemma validate_blocks:
  assumes "validate_user_data pf data = Inr errors"
  shows "\<exists>g. errors = required_loop data [] required_fields
       @ (if (\<exists>v x. map_of data ''age'' = Some v \<and> py_float pf v = Inr x
                \<and> (float_le x 0 \<or> float_gt x 150))
          then [''Age must be between 1 and 150'']
          else if (\<exists>v m. map_of data ''age'' = Some v \<and> py_float pf v = Inl (ValueError m))
          then [''Age must be a valid number''] else [])
       @ (if (\<exists>v x. map_of data ''weight'' = Some v \<and> py_float pf v = Inr x
                \<and> (float_le x 0 \<or> float_gt x 500))
          then [''Weight must be between 1 and 500 kg'']
          else if (\<exists>v m. map_of data ''weight'' = Some v \<and> py_float pf v = Inl (ValueError m))
          then [''Weight must be a valid number''] else [])
       @ (if (\<exists>v x. map_of data ''height'' = Some v \<and> py_float pf v = Inr x
                \<and> (float_le x 0 \<or> float_gt x 300))
          then [''Height must be between 1 and 300 cm'']
          else if (\<exists>v m. map_of data ''height'' = Some v \<and> py_float pf v = Inl (ValueError m))
          then [''Height must be a valid number''] else [])
       @ g
     \<and> g \<in> {[], [''Gender must be 'male' or 'female'' @ [CHR 0x27]]}"
proof -
  obtain e1 e2 e3 where
    a: "check_number pf data ''age'' 150
       ''Age must be between 1 and 150'' ''Age must be a valid number''
       (required_loop data [] required_fields) = Inr e1"
    and w: "check_number pf data ''weight'' 500
       ''Weight must be between 1 and 500 kg'' ''Weight must be a valid number'' e1 = Inr e2"
    and h: "check_number pf data ''height'' 300
       ''Height must be between 1 and 300 cm'' ''Height must be a valid number'' e2 = Inr e3"
    and g: "check_gender data e3 = Inr errors"
    using validate_user_data_Inr [OF assms] by blast
  obtain xg where xg: "errors = e3 @ xg"
    "xg \<in> {[], [''Gender must be 'male' or 'female'' @ [CHR 0x27]]}"
    using check_gender_result [OF g] by auto
  show ?thesis
    using xg(2)
    by (simp only: xg(1) check_number_exact [OF h] check_number_exact [OF w]
        check_number_exact [OF a] append_assoc) blast
qed

text \<open>
  Membership in a list of five blocks, for a message that only the second, the third or the
  fourth block can hold.
\<close>

lemma mem_second_block:
  assumes "errors = r @ a @ w @ h @ g"
    and "m \<notin> set r" and "m \<notin> set w" and "m \<notin> set h" and "m \<notin> set g"
  shows "m \<in> set errors \<longleftrightarrow> m \<in> set a"
  using assms by auto

lemma mem_third_block:
  assumes "errors = r @ a @ w @ h @ g"
    and "m \<notin> set r" and "m \<notin> set a" and "m \<notin> set h" and "m \<notin> set g"
  shows "m \<in> set errors \<longleftrightarrow> m \<in> set w"
  using assms by auto

lemma mem_fourth_block:
  assumes "errors = r @ a @ w @ h @ g"
    and "m \<notin> set r" and "m \<notin> set a" and "m \<notin> set w" and "m \<notin> set g"
  shows "m \<in> set errors \<longleftrightarrow> m \<in> set h"
  using assms by auto

lemma not_mem_required:
  assumes "m \<notin> {''name is required'', ''age is required'', ''weight is required'',
      ''height is required'', ''gender is required'', ''goal is required''}"
  shows "m \<notin> set (required_loop data [] required_fields)"
  using assms required_messages [of data] by (meson subsetD)

lemma not_mem_gender_block:
  assumes "g \<in> {[], [gm]}" and "m \<noteq> gm"
  shows "m \<notin> set g"
  using assms by auto

lemma validate_age_messages:
  assumes "validate_user_data pf data = Inr errors"
  shows "''Age must be between 1 and 150'' \<in> set errors \<longleftrightarrow>
      (\<exists>v x. map_of data ''age'' = Some v \<and> py_float pf v = Inr x
         \<and> (float_le x 0 \<or> float_gt x 150))"
    and "''Age must be a valid number'' \<in> set errors \<longleftrightarrow>
      (\<exists>v m. map_of data ''age'' = Some v \<and> py_float pf v = Inl (ValueError m))"
proof -
  obtain g where e: "errors = required_loop data [] required_fields
       @ (if (\<exists>v x. map_of data ''age'' = Some v \<and> py_float pf v = Inr x
                \<and> (float_le x 0 \<or> float_gt x 150))
          then [''Age must be between 1 and 150'']
          else if (\<exists>v m. map_of data ''age'' = Some v \<and> py_float pf v = Inl (ValueError m))
          then [''Age must be a valid number''] else [])
       @ (if (\<exists>v x. map_of data ''weight'' = Some v \<and> py_float pf v = Inr x
                \<and> (float_le x 0 \<or> float_gt x 500))
          then [''Weight must be between 1 and 500 kg'']
          else if (\<exists>v m. map_of data ''weight'' = Some v \<and> py_float pf v = Inl (ValueError m))
          then [''Weight must be a valid number''] else [])
       @ (if (\<exists>v x. map_of data ''height'' = Some v \<and> py_float pf v = Inr x
                \<and> (float_le x 0 \<or> float_gt x 300))
          then [''Height must be between 1 and 300 cm'']
          else if (\<exists>v m. map_of data ''height'' = Some v \<and> py_float pf v = Inl (ValueError m))
          then [''Height must be a valid number''] else [])
       @ g"
    and g: "g \<in> {[], [''Gender must be 'male' or 'female'' @ [CHR 0x27]]}"
    using validate_blocks [OF assms] by blast
  have x: "\<not> ((\<exists>v x. map_of data ''age'' = Some v \<and> py_float pf v = Inr x
                \<and> (float_le x 0 \<or> float_gt x 150))
      \<and> (\<exists>v m. map_of data ''age'' = Some v \<and> py_float pf v = Inl (ValueError m)))"
    by (rule py_float_not_both)
  have "''Age must be between 1 and 150'' \<in> set errors \<longleftrightarrow>
      ''Age must be between 1 and 150'' \<in> set
         (if (\<exists>v x. map_of data ''age'' = Some v \<and> py_float pf v = Inr x
                \<and> (float_le x 0 \<or> float_gt x 150))
          then [''Age must be between 1 and 150'']
          else if (\<exists>v m. map_of data ''age'' = Some v \<and> py_float pf v = Inl (ValueError m))
          then [''Age must be a valid number''] else [])"
    by (rule mem_second_block [OF e])
       (rule not_mem_required not_mem_number_block not_mem_gender_block [OF g], simp, simp?)+
  then show "''Age must be between 1 and 150'' \<in> set errors \<longleftrightarrow>
      (\<exists>v x. map_of data ''age'' = Some v \<and> py_float pf v = Inr x
         \<and> (float_le x 0 \<or> float_gt x 150))"
    by (simp only: mem_number_block(1) [of "''Age must be between 1 and 150''"
          "''Age must be a valid number''", simplified])
  have "''Age must be a valid number'' \<in> set errors \<longleftrightarrow>
      ''Age must be a valid number'' \<in> set
         (if (\<exists>v x. map_of data ''age'' = Some v \<and> py_float pf v = Inr x
                \<and> (float_le x 0 \<or> float_gt x 150))
          then [''Age must be between 1 and 150'']
          else if (\<exists>v m. map_of data ''age'' = Some v \<and> py_float pf v = Inl (ValueError m))
          then [''Age must be a valid number''] else [])"
    by (rule mem_second_block [OF e])
       (rule not_mem_required not_mem_number_block not_mem_gender_block [OF g], simp, simp?)+
  then show "''Age must be a valid number'' \<in> set errors \<longleftrightarrow>
      (\<exists>v m. map_of data ''age'' = Some v \<and> py_float pf v = Inl (ValueError m))"
    using x
    by (simp only: mem_number_block(2) [of "''Age must be between 1 and 150''"
          "''Age must be a valid number''", simplified]) blast
qed

lemma validate_weight_messages:
  assumes "validate_user_data pf data = Inr errors"
  shows "''Weight must be between 1 and 500 kg'' \<in> set errors \<longleftrightarrow>
      (\<exists>v x. map_of data ''weight'' = Some v \<and> py_float pf v = Inr x
         \<and> (float_le x 0 \<or> float_gt x 500))"
    and "''Weight must be a valid number'' \<in> set errors \<longleftrightarrow>
      (\<exists>v m. map_of data ''weight'' = Some v \<and> py_float pf v = Inl (ValueError m))"
proof -
  obtain g where e: "errors = required_loop data [] required_fields
       @ (if (\<exists>v x. map_of data ''age'' = Some v \<and> py_float pf v = Inr x
                \<and> (float_le x 0 \<or> float_gt x 150))
          then [''Age must be between 1 and 150'']
          else if (\<exists>v m. map_of data ''age'' = Some v \<and> py_float pf v = Inl (ValueError m))
          then [''Age must be a valid number''] else [])
       @ (if (\<exists>v x. map_of data ''weight'' = Some v \<and> py_float pf v = Inr x
                \<and> (float_le x 0 \<or> float_gt x 500))
          then [''Weight must be between 1 and 500 kg'']
          else if (\<exists>v m. map_of data ''weight'' = Some v \<and> py_float pf v = Inl (ValueError m))
          then [''Weight must be a valid number''] else [])
       @ (if (\<exists>v x. map_of data ''height'' = Some v \<and> py_float pf v = Inr x
                \<and> (float_le x 0 \<or> float_gt x 300))
          then [''Height must be between 1 and 300 cm'']
          else if (\<exists>v m. map_of data ''height'' = Some v \<and> py_float pf v = Inl (ValueError m))
          then [''Height must be a valid number''] else [])
       @ g"
    and g: "g \<in> {[], [''Gender must be 'male' or 'female'' @ [CHR 0x27]]}"
    using validate_blocks [OF assms] by blast
  have x: "\<not> ((\<exists>v x. map_of data ''weight'' = Some v \<and> py_float pf v = Inr x
                \<and> (float_le x 0 \<or> float_gt x 500))
      \<and> (\<exists>v m. map_of data ''weight'' = Some v \<and> py_float pf v = Inl (ValueError m)))"
    by (rule py_float_not_both)
  have "''Weight must be between 1 and 500 kg'' \<in> set errors \<longleftrightarrow>
      ''Weight must be between 1 and 500 kg'' \<in> set
         (if (\<exists>v x. map_of data ''weight'' = Some v \<and> py_float pf v = Inr x
                \<and> (float_le x 0 \<or> float_gt x 500))
          then [''Weight must be between 1 and 500 kg'']
          else if (\<exists>v m. map_of data ''weight'' = Some v \<and> py_float pf v = Inl (ValueError m))
          then [''Weight must be a valid number''] else [])"
    by (rule mem_third_block [OF e])
       (rule not_mem_required not_mem_number_block not_mem_gender_block [OF g], simp, simp?)+
  then show "''Weight must be between 1 and 500 kg'' \<in> set errors \<longleftrightarrow>
      (\<exists>v x. map_of data ''weight'' = Some v \<and> py_float pf v = Inr x
         \<and> (float_le x 0 \<or> float_gt x 500))"
    by (simp only: mem_number_block(1) [of "''Weight must be between 1 and 500 kg''"
          "''Weight must be a valid number''", simplified])
  have "''Weight must be a valid number'' \<in> set errors \<longleftrightarrow>
      ''Weight must be a valid number'' \<in> set
         (if (\<exists>v x. map_of data ''weight'' = Some v \<and> py_float pf v = Inr x
                \<and> (float_le x 0 \<or> float_gt x 500))
          then [''Weight must be between 1 and 500 kg'']
          else if (\<exists>v m. map_of data ''weight'' = Some v \<and> py_float pf v = Inl (ValueError m))
          then [''Weight must be a valid number''] else [])"
    by (rule mem_third_block [OF e])
       (rule not_mem_required not_mem_number_block not_mem_gender_block [OF g], simp, simp?)+
  then show "''Weight must be a valid number'' \<in> set errors \<longleftrightarrow>
      (\<exists>v m. map_of data ''weight'' = Some v \<and> py_float pf v = Inl (ValueError m))"
    using x
    by (simp only: mem_number_block(2) [of "''Weight must be between 1 and 500 kg''"
          "''Weight must be a valid number''", simplified]) blast
qed

lemma validate_height_messages:
  assumes "validate_user_data pf data = Inr errors"
  shows "''Height must be between 1 and 300 cm'' \<in> set errors \<longleftrightarrow>
      (\<exists>v x. map_of data ''height'' = Some v \<and> py_float pf v = Inr x
         \<and> (float_le x 0 \<or> float_gt x 300))"
    and "''Height must be a valid number'' \<in> set errors \<longleftrightarrow>
      (\<exists>v m. map_of data ''height'' = Some v \<and> py_float pf v = Inl (ValueError m))"
proof -
  obtain g where e: "errors = required_loop data [] required_fields
       @ (if (\<exists>v x. map_of data ''age'' = Some v \<and> py_float pf v = Inr x
                \<and> (float_le x 0 \<or> float_gt x 150))
          then [''Age must be between 1 and 150'']
          else if (\<exists>v m. map_of data ''age'' = Some v \<and> py_float pf v = Inl (ValueError m))
          then [''Age must be a valid number''] else [])
       @ (if (\<exists>v x. map_of data ''weight'' = Some v \<and> py_float pf v = Inr x
                \<and> (float_le x 0 \<or> float_gt x 500))
          then [''Weight must be between 1 and 500 kg'']
          else if (\<exists>v m. map_of data ''weight'' = Some v \<and> py_float pf v = Inl (ValueError m))
          then [''Weight must be a valid number''] else [])
       @ (if (\<exists>v x. map_of data ''height'' = Some v \<and> py_float pf v = Inr x
                \<and> (float_le x 0 \<or> float_gt x 300))
          then [''Height must be between 1 and 300 cm'']
          else if (\<exists>v m. map_of data ''height'' = Some v \<and> py_float pf v = Inl (ValueError m))
          then [''Height must be a valid number''] else [])
       @ g"
    and g: "g \<in> {[], [''Gender must be 'male' or 'female'' @ [CHR 0x27]]}"
    using validate_blocks [OF assms] by blast
  have x: "\<not> ((\<exists>v x. map_of data ''height'' = Some v \<and> py_float pf v = Inr x
                \<and> (float_le x 0 \<or> float_gt x 300))
      \<and> (\<exists>v m. map_of data ''height'' = Some v \<and> py_float pf v = Inl (ValueError m)))"
    by (rule py_float_not_both)
  have "''Height must be between 1 and 300 cm'' \<in> set errors \<longleftrightarrow>
      ''Height must be between 1 and 300 cm'' \<in> set
         (if (\<exists>v x. map_of data ''height'' = Some v \<and> py_float pf v = Inr x
                \<and> (float_le x 0 \<or> float_gt x 300))
          then [''Height must be between 1 and 300 cm'']
          else if (\<exists>v m. map_of data ''height'' = Some v \<and> py_float pf v = Inl (ValueError m))
          then [''Height must be a valid number''] else [])"
    by (rule mem_fourth_block [OF e])
       (rule not_mem_required not_mem_number_block not_mem_gender_block [OF g], simp, simp?)+
  then show "''Height must be between 1 and 300 cm'' \<in> set errors \<longleftrightarrow>
      (\<exists>v x. map_of data ''height'' = Some v \<and> py_float pf v = Inr x
         \<and> (float_le x 0 \<or> float_gt x 300))"
    by (simp only: mem_number_block(1) [of "''Height must be between 1 and 300 cm''"
          "''Height must be a valid number''", simplified])
  have "''Height must be a valid number'' \<in> set errors \<longleftrightarrow>
      ''Height must be a valid number'' \<in> set
         (if (\<exists>v x. map_of data ''height'' = Some v \<and> py_float pf v = Inr x
                \<and> (float_le x 0 \<or> float_gt x 300))
          then [''Height must be between 1 and 300 cm'']
          else if (\<exists>v m. map_of data ''height'' = Some v \<and> py_float pf v = Inl (ValueError m))
          then [''Height must be a valid number''] else [])"
    by (rule mem_fourth_block [OF e])
       (rule not_mem_required not_mem_number_block not_mem_gender_block [OF g], simp, simp?)+
  then show "''Height must be a valid number'' \<in> set errors \<longleftrightarrow>
      (\<exists>v m. map_of data ''height'' = Some v \<and> py_float pf v = Inl (ValueError m))"
    using x
    by (simp only: mem_number_block(2) [of "''Height must be between 1 and 300 cm''"
          "''Height must be a valid number''", simplified]) blast
qed

lemma validate_example_age:
  assumes "pf ''200'' = Some (Finite 200)" "pf ''70'' = Some (Finite 70)"
    "pf ''170'' = Some (Finite 170)"
  shows "validate_user_data pf
       [(''name'', JStr ''A''), (''age'', JStr ''200''), (''weight'', JStr ''70''),
        (''height'', JStr ''170''), (''gender'', JStr ''male''), (''goal'', JStr ''lose'')]
     = Inr [''Age must be between 1 and 150'']"
  using assms
  by (simp add: validate_user_data_def check_number_def check_gender_def required_fields_def py_lower_male)

lemma validate_example_age_weight:
  assumes "pf ''abc'' = None" "pf ''900'' = Some (Finite 900)" "pf ''170'' = Some (Finite 170)"
  shows "validate_user_data pf
       [(''name'', JStr ''A''), (''age'', JStr ''abc''), (''weight'', JStr ''900''),
        (''height'', JStr ''170''), (''gender'', JStr ''male''), (''goal'', JStr ''lose'')]
     = Inr [''Age must be a valid number'', ''Weight must be between 1 and 500 kg'']"
  using assms
  by (simp add: validate_user_data_def check_number_def check_gender_def required_fields_def py_lower_male)

lemma decimal_float_examples:
  "decimal_float ''200'' = Some (Finite 200)"
  "decimal_float ''70'' = Some (Finite 70)"
  "decimal_float ''170'' = Some (Finite 170)"
  "decimal_float ''900'' = Some (Finite 900)"
  "decimal_float ''abc'' = None"
  by code_simp+


text \<open>
  Claim C9. In the list one call of the validation returns, the message of a parse failure
  and the message of a range failure of the same numeric field (age, weight, height) are
  never both present: of the two, at most one occurs, at most once. Each of the six
  messages depends on its own field only: the range message of a field is in the list
  exactly when the field is present, \<^verbatim>\<open>float\<close> returns a value for it and that value is
  outside the range; the parse-failure message of a field is in the list exactly when the
  field is present and \<^verbatim>\<open>float\<close> raises \<^verbatim>\<open>ValueError\<close> on it. So a parse failure
  suppresses the range check of its own field and of no other. Where \<^verbatim>\<open>float\<close> reads the
  strings \<open>200\<close>, \<open>70\<close> and \<open>170\<close> as these numbers, the input with name \<open>A\<close>,
  age \<open>200\<close>, weight \<open>70\<close>, height \<open>170\<close>, gender \<open>male\<close> and goal \<open>lose\<close>
  gives the single message \<open>Age must be between 1 and 150\<close>.
\<close>

theorem validate_parse_failure_or_range:
  "(validate_user_data pf data = Inr errors \<longrightarrow>
      count_list errors ''Age must be a valid number'' +
        count_list errors ''Age must be between 1 and 150'' \<le> 1
    \<and> count_list errors ''Weight must be a valid number'' +
        count_list errors ''Weight must be between 1 and 500 kg'' \<le> 1
    \<and> count_list errors ''Height must be a valid number'' +
        count_list errors ''Height must be between 1 and 300 cm'' \<le> 1
    \<and> (''Age must be between 1 and 150'' \<in> set errors \<longleftrightarrow>
         (\<exists>v x. map_of data ''age'' = Some v \<and> py_float pf v = Inr x
            \<and> (float_le x 0 \<or> float_gt x 150)))
    \<and> (''Age must be a valid number'' \<in> set errors \<longleftrightarrow>
         (\<exists>v m. map_of data ''age'' = Some v \<and> py_float pf v = Inl (ValueError m)))
    \<and> (''Weight must be between 1 and 500 kg'' \<in> set errors \<longleftrightarrow>
         (\<exists>v x. map_of data ''weight'' = Some v \<and> py_float pf v = Inr x
            \<and> (float_le x 0 \<or> float_gt x 500)))
    \<and> (''Weight must be a valid number'' \<in> set errors \<longleftrightarrow>
         (\<exists>v m. map_of data ''weight'' = Some v \<and> py_float pf v = Inl (ValueError m)))
    \<and> (''Height must be between 1 and 300 cm'' \<in> set errors \<longleftrightarrow>
         (\<exists>v x. map_of data ''height'' = Some v \<and> py_float pf v = Inr x
            \<and> (float_le x 0 \<or> float_gt x 300)))
    \<and> (''Height must be a valid number'' \<in> set errors \<longleftrightarrow>
         (\<exists>v m. map_of data ''height'' = Some v \<and> py_float pf v = Inl (ValueError m))))
   \<and> (pf ''200'' = Some (Finite 200) \<and> pf ''70'' = Some (Finite 70)
        \<and> pf ''170'' = Some (Finite 170) \<longrightarrow>
      validate_user_data pf
        [(''name'', JStr ''A''), (''age'', JStr ''200''), (''weight'', JStr ''70''),
         (''height'', JStr ''170''), (''gender'', JStr ''male''), (''goal'', JStr ''lose'')]
      = Inr [''Age must be between 1 and 150''])
   \<and> (pf ''abc'' = None \<and> pf ''900'' = Some (Finite 900)
        \<and> pf ''170'' = Some (Finite 170) \<longrightarrow>
      validate_user_data pf
        [(''name'', JStr ''A''), (''age'', JStr ''abc''), (''weight'', JStr ''900''),
         (''height'', JStr ''170''), (''gender'', JStr ''male''), (''goal'', JStr ''lose'')]
      = Inr [''Age must be a valid number'', ''Weight must be between 1 and 500 kg''])"
proof (intro conjI impI)
  assume v: "validate_user_data pf data = Inr errors"
  show "count_list errors ''Age must be a valid number'' +
        count_list errors ''Age must be between 1 and 150'' \<le> 1"
    using v by (rule validate_number_messages(1))
  show "count_list errors ''Weight must be a valid number'' +
        count_list errors ''Weight must be between 1 and 500 kg'' \<le> 1"
    using v by (rule validate_number_messages(2))
  show "count_list errors ''Height must be a valid number'' +
        count_list errors ''Height must be between 1 and 300 cm'' \<le> 1"
    using v by (rule validate_number_messages(3))
  show "''Age must be between 1 and 150'' \<in> set errors \<longleftrightarrow>
         (\<exists>v x. map_of data ''age'' = Some v \<and> py_float pf v = Inr x
            \<and> (float_le x 0 \<or> float_gt x 150))"
    using v by (rule validate_age_messages(1))
  show "''Age must be a valid number'' \<in> set errors \<longleftrightarrow>
         (\<exists>v m. map_of data ''age'' = Some v \<and> py_float pf v = Inl (ValueError m))"
    using v by (rule validate_age_messages(2))
  show "''Weight must be between 1 and 500 kg'' \<in> set errors \<longleftrightarrow>
         (\<exists>v x. map_of data ''weight'' = Some v \<and> py_float pf v = Inr x
            \<and> (float_le x 0 \<or> float_gt x 500))"
    using v by (rule validate_weight_messages(1))
  show "''Weight must be a valid number'' \<in> set errors \<longleftrightarrow>
         (\<exists>v m. map_of data ''weight'' = Some v \<and> py_float pf v = Inl (ValueError m))"
    using v by (rule validate_weight_messages(2))
  show "''Height must be between 1 and 300 cm'' \<in> set errors \<longleftrightarrow>
         (\<exists>v x. map_of data ''height'' = Some v \<and> py_float pf v = Inr x
            \<and> (float_le x 0 \<or> float_gt x 300))"
    using v by (rule validate_height_messages(1))
  show "''Height must be a valid number'' \<in> set errors \<longleftrightarrow>
         (\<exists>v m. map_of data ''height'' = Some v \<and> py_float pf v = Inl (ValueError m))"
    using v by (rule validate_height_messages(2))
next
  assume "pf ''200'' = Some (Finite 200) \<and> pf ''70'' = Some (Finite 70)
        \<and> pf ''170'' = Some (Finite 170)"
  then show "validate_user_data pf
        [(''name'', JStr ''A''), (''age'', JStr ''200''), (''weight'', JStr ''70''),
         (''height'', JStr ''170''), (''gender'', JStr ''male''), (''goal'', JStr ''lose'')]
      = Inr [''Age must be between 1 and 150'']"
    using validate_example_age [of pf] by blast
next
  assume "pf ''abc'' = None \<and> pf ''900'' = Some (Finite 900)
        \<and> pf ''170'' = Some (Finite 170)"
  then show "validate_user_data pf
        [(''name'', JStr ''A''), (''age'', JStr ''abc''), (''weight'', JStr ''900''),
         (''height'', JStr ''170''), (''gender'', JStr ''male''), (''goal'', JStr ''lose'')]
      = Inr [''Age must be a valid number'', ''Weight must be between 1 and 500 kg'']"
    using validate_example_age_weight [of pf] by blast
qed

theorem validate_parse_failure_or_range_witness:
  "validate_user_data decimal_float
        [(''name'', JStr ''A''), (''age'', JStr ''200''), (''weight'', JStr ''70''),
         (''height'', JStr ''170''), (''gender'', JStr ''male''), (''goal'', JStr ''lose'')]
      = Inr [''Age must be between 1 and 150'']
   \<and> count_list [''Age must be between 1 and 150''] ''Age must be a valid number'' +
        count_list [''Age must be between 1 and 150''] ''Age must be between 1 and 150'' \<le> 1
   \<and> validate_user_data decimal_float
        [(''name'', JStr ''A''), (''age'', JStr ''abc''), (''weight'', JStr ''900''),
         (''height'', JStr ''170''), (''gender'', JStr ''male''), (''goal'', JStr ''lose'')]
      = Inr [''Age must be a valid number'', ''Weight must be between 1 and 500 kg'']
   \<and> py_float decimal_float (JStr ''900'') = Inr (Finite 900)
   \<and> float_gt (Finite 900) 500
   \<and> ''Weight must be between 1 and 500 kg'' \<in>
        set [''Age must be a valid number'', ''Weight must be between 1 and 500 kg'']"
proof -
  have e: "validate_user_data decimal_float
        [(''name'', JStr ''A''), (''age'', JStr ''200''), (''weight'', JStr ''70''),
         (''height'', JStr ''170''), (''gender'', JStr ''male''), (''goal'', JStr ''lose'')]
      = Inr [''Age must be between 1 and 150'']"
    using validate_parse_failure_or_range [of decimal_float "[]" "[]"]
      decimal_float_examples
    by blast
  have f: "validate_user_data decimal_float
        [(''name'', JStr ''A''), (''age'', JStr ''abc''), (''weight'', JStr ''900''),
         (''height'', JStr ''170''), (''gender'', JStr ''male''), (''goal'', JStr ''lose'')]
      = Inr [''Age must be a valid number'', ''Weight must be between 1 and 500 kg'']"
    using validate_parse_failure_or_range [of decimal_float "[]" "[]"]
      decimal_float_examples
    by blast
  have c: "count_list [''Age must be between 1 and 150''] ''Age must be a valid number'' +
        count_list [''Age must be between 1 and 150''] ''Age must be between 1 and 150'' \<le> 1"
    using e validate_parse_failure_or_range
      [of decimal_float
        "[(''name'', JStr ''A''), (''age'', JStr ''200''), (''weight'', JStr ''70''),
         (''height'', JStr ''170''), (''gender'', JStr ''male''), (''goal'', JStr ''lose'')]"
        "[''Age must be between 1 and 150'']"]
    by blast
  have p: "py_float decimal_float (JStr ''900'') = Inr (Finite 900)"
    by (simp add: decimal_float_examples)
  have m: "map_of [(''name'', JStr ''A''), (''age'', JStr ''abc''), (''weight'', JStr ''900''),
         (''height'', JStr ''170''), (''gender'', JStr ''male''), (''goal'', JStr ''lose'')]
       ''weight'' = Some (JStr ''900'')"
    by simp
  have g: "float_gt (Finite 900) 500"
    by simp
  have w: "''Weight must be between 1 and 500 kg'' \<in>
        set [''Age must be a valid number'', ''Weight must be between 1 and 500 kg'']"
    using f p m g validate_parse_failure_or_range
      [of decimal_float
        "[(''name'', JStr ''A''), (''age'', JStr ''abc''), (''weight'', JStr ''900''),
         (''height'', JStr ''170''), (''gender'', JStr ''male''), (''goal'', JStr ''lose'')]"
        "[''Age must be a valid number'', ''Weight must be between 1 and 500 kg'']"]
    by blast
  show ?thesis
    using e f c p g w by blast
qed

section \<open>The basal metabolic rate\<close>

lemma py_lower_examples:
  "py_lower ''Male'' = ''male''"
  "py_lower ''FEMALE'' = ''female''"
  "py_lower ''other'' = ''other''"
  by code_simp+

text \<open>
  Claim C5, as the specification words it, fails on the message of the error: the program
  raises \<^verbatim>\<open>ValueError("Gender must be 'male' or 'female'")\<close>, not an error with the message
  \<open>gender must be male or female\<close>.
\<close>

theorem calculate_bmr_message_counterexample:
  "calculate_bmr ''other'' (Finite 70) (Finite 170) (Finite 25) \<noteq>
     Inl (ValueError ''gender must be male or female'')"
  by (simp add: calculate_bmr_def py_lower_examples)

text \<open>
  Claim C5, amended. For all numbers weight, height and age, \<^const>\<open>calculate_bmr\<close>
  returns \<open>88.362 + 13.397 * weight + 4.799 * height - 5.677 * age\<close> when the lowercase
  of the gender is \<open>male\<close>, and
  \<open>447.593 + 9.247 * weight + 3.098 * height - 4.33 * age\<close> when it is \<open>female\<close>. For
  every other gender string, and all arguments whatever (the non-finite floats included),
  it raises a \<^verbatim>\<open>ValueError\<close> whose message is \<^verbatim>\<open>Gender must be 'male' or 'female'\<close>.
  The value returned is the value of the formula, not rounded.
\<close>

theorem calculate_bmr_cases:
  "(py_lower g = ''male'' \<longrightarrow>
      calculate_bmr g (Finite w) (Finite h) (Finite a) =
        Inr (Finite (88.362 + 13.397 * w + 4.799 * h - 5.677 * a)))
   \<and> (py_lower g = ''female'' \<longrightarrow>
      calculate_bmr g (Finite w) (Finite h) (Finite a) =
        Inr (Finite (447.593 + 9.247 * w + 3.098 * h - 4.33 * a)))
   \<and> (py_lower g \<noteq> ''male'' \<and> py_lower g \<noteq> ''female'' \<longrightarrow>
      calculate_bmr g x y z =
        Inl (ValueError (''Gender must be 'male' or 'female'' @ [CHR 0x27])))"
  by (simp add: calculate_bmr_def float_sub_def)

theorem calculate_bmr_cases_witness:
  "py_lower ''Male'' = ''male''
   \<and> calculate_bmr ''Male'' (Finite 70) (Finite 170) (Finite 25) = Inr (Finite 1700.057)
   \<and> py_lower ''FEMALE'' = ''female''
   \<and> calculate_bmr ''FEMALE'' (Finite 60) (Finite 165) (Finite 30) = Inr (Finite 1383.683)
   \<and> py_lower ''other'' \<noteq> ''male'' \<and> py_lower ''other'' \<noteq> ''female''
   \<and> calculate_bmr ''other'' (Finite 70) NaN PosInf =
        Inl (ValueError (''Gender must be 'male' or 'female'' @ [CHR 0x27]))"
  using calculate_bmr_cases [of "''Male''" 70 170 25]
    calculate_bmr_cases [of "''FEMALE''" 60 165 30]
    calculate_bmr_cases [of "''other''" _ _ _ "Finite 70" NaN PosInf]
  by (simp add: py_lower_examples)

section \<open>The parser of the webhook\<close>

lemma py_split_not_Nil: "py_split sep s \<noteq> []"
  by (induction s) (auto split: list.splits)

lemma py_join_Cons_head: "py_join sep ((c # p) # ps) = c # py_join sep (p # ps)"
  by (cases ps) simp_all

lemma py_join_split: "py_join [sep] (py_split sep s) = s"
proof (induction s)
  case Nil
  show ?case by simp
next
  case (Cons c cs)
  obtain p ps where sp: "py_split sep cs = p # ps"
    using py_split_not_Nil [of sep cs] by (cases "py_split sep cs") auto
  show ?case
    using Cons.IH by (simp add: sp py_join_Cons_head)
qed

lemma py_split_no_sep: "p \<in> set (py_split sep s) \<Longrightarrow> sep \<notin> set p"
  by (induction s arbitrary: p) (auto split: if_splits list.splits)

lemma length_py_split: "length (py_split sep s) = Suc (count_list s sep)"
  by (induction s) (auto split: list.splits simp add: py_split_not_Nil)

lemma last_py_split: "s \<noteq> [] \<Longrightarrow> last s = sep \<Longrightarrow> last (py_split sep s) = []"
proof (induction s)
  case Nil
  then show ?case by simp
next
  case (Cons c cs)
  show ?case
  proof (cases "cs = []")
    case True
    then show ?thesis using Cons.prems by simp
  next
    case False
    obtain p ps where sp: "py_split sep cs = p # ps"
      using py_split_not_Nil [of sep cs] by (cases "py_split sep cs") auto
    have "sep \<in> set cs"
      using Cons.prems False last_in_set [of cs] by auto
    then have "count_list cs sep \<noteq> 0"
      using count_list_0_iff [of cs sep] by blast
    then have "ps \<noteq> []"
      using length_py_split [of sep cs] sp by auto
    moreover have "last (py_split sep cs) = []"
      using Cons.IH Cons.prems False by simp
    ultimately show ?thesis
      using sp by simp
  qed
qed

lemma py_strip_Nil: "py_strip [] = []"
  by (simp add: py_strip_def)

lemma py_split_pieces_subset: "p \<in> set (py_split sep s) \<Longrightarrow> set p \<subseteq> set s"
proof (induction s arbitrary: p)
  case Nil
  then show ?case by simp
next
  case (Cons c cs)
  obtain q qs where sp: "py_split sep cs = q # qs"
    using py_split_not_Nil [of sep cs] by (cases "py_split sep cs") auto
  have ih: "set r \<subseteq> set cs" if "r \<in> set (q # qs)" for r
    using Cons.IH [of r] that sp by simp
  show ?case
  proof (cases "c = sep")
    case True
    then have "p = [] \<or> p \<in> set (q # qs)"
      using Cons.prems sp by auto
    then show ?thesis
      using ih by auto
  next
    case False
    then have "p = c # q \<or> p \<in> set qs"
      using Cons.prems sp by auto
    then show ?thesis
      using ih [of q] ih [of p] by auto
  qed
qed

lemma py_strip_subset: "set (py_strip s) \<subseteq> set s"
proof -
  have "set (dropWhile is_space (rev (dropWhile is_space s))) \<subseteq> set (rev (dropWhile is_space s))"
    by (meson set_dropWhileD subsetI)
  moreover have "set (dropWhile is_space s) \<subseteq> set s"
    by (meson set_dropWhileD subsetI)
  ultimately show ?thesis
    by (auto simp add: py_strip_def)
qed

lemma match_items_subset: "match_items s = Some g \<Longrightarrow> set g \<subseteq> set s"
proof (induction s arbitrary: g)
  case Nil
  then show ?case by simp
next
  case (Cons c cs)
  have tw: "set (takeWhile (\<lambda>d. d \<noteq> newline) (c # cs)) \<subseteq> set (c # cs)"
    by (meson set_takeWhileD subsetI)
  show ?case
  proof (cases "is_space c")
    case False
    then show ?thesis using Cons.prems tw by auto
  next
    case True
    show ?thesis
    proof (cases "match_items cs")
      case None
      then show ?thesis using Cons.prems True tw by (auto split: if_splits)
    next
      case (Some g')
      then have "set g' \<subseteq> set cs" by (rule Cons.IH)
      then show ?thesis using Cons.prems True Some by auto
    qed
  qed
qed

lemma match_items_not_Nil: "match_items s = Some g \<Longrightarrow> g \<noteq> []"
proof (induction s arbitrary: g)
  case Nil
  then show ?case by simp
next
  case (Cons c cs)
  have nl: "is_space newline"
    by (simp add: is_space_def newline_def)
  show ?case
  proof (cases "is_space c")
    case False
    then have "c \<noteq> newline" using nl by auto
    then show ?thesis using Cons.prems False by auto
  next
    case True
    show ?thesis
    proof (cases "match_items cs")
      case None
      then show ?thesis using Cons.prems True by (auto split: if_splits)
    next
      case (Some g')
      then have "g' \<noteq> []" by (rule Cons.IH)
      then show ?thesis using Cons.prems True Some by auto
    qed
  qed
qed

lemma strip_prefix_subset: "strip_prefix p s = Some r \<Longrightarrow> set r \<subseteq> set s"
  by (auto simp add: strip_prefix_def split: if_splits dest: in_set_dropD)

lemma match_meal_type_subset:
  "match_meal_type kws s = Some (kw, r) \<Longrightarrow> set r \<subseteq> set s \<and> kw \<in> set kws"
proof (induction kws)
  case Nil
  then show ?case by simp
next
  case (Cons k kws)
  show ?case
  proof (cases "strip_prefix (k @ '':'') s")
    case None
    then show ?thesis using Cons by auto
  next
    case (Some r')
    then show ?thesis using Cons.prems strip_prefix_subset [OF Some] by auto
  qed
qed

lemma match_pattern_subset:
  assumes "match_pattern m = Some (mt, rest)"
  shows "set rest \<subseteq> set m" and "mt \<in> set meal_types" and "rest \<noteq> []"
proof -
  obtain r r' where
    r: "strip_prefix ''log'' m = Some r"
    and k: "match_meal_type meal_types (dropWhile is_space r) = Some (mt, r')"
    and g: "match_items r' = Some rest"
    using assms
    by (auto simp add: match_pattern_def split: option.splits if_splits)
  have "set (dropWhile is_space r) \<subseteq> set r"
    by (meson set_dropWhileD subsetI)
  then show "set rest \<subseteq> set m"
    using strip_prefix_subset [OF r] match_meal_type_subset [OF k] match_items_subset [OF g]
    by blast
  show "mt \<in> set meal_types"
    using match_meal_type_subset [OF k] by simp
  show "rest \<noteq> []"
    using match_items_not_Nil [OF g] .
qed

lemma lower_char_not_upper: "\<not> is_upper (lower_char c)"
proof (cases "is_upper c")
  case False
  then show ?thesis by (simp add: lower_char_def)
next
  case True
  then have "(of_char c :: nat) + 32 < 256"
    by (auto simp add: is_upper_def Let_def)
  then have "(of_char (char_of ((of_char c :: nat) + 32)) :: nat) = of_char c + 32"
    by simp
  then show ?thesis
    using True by (auto simp add: lower_char_def is_upper_def Let_def)
qed

lemma py_lower_no_upper: "c \<in> set (py_lower s) \<Longrightarrow> \<not> is_upper c"
  by (auto simp add: py_lower_def lower_char_not_upper)

lemma parse_message_items:
  assumes "parse_message raw = Some (mt, items)"
  shows "\<exists>rest. match_pattern (py_lower (py_strip raw)) = Some (mt, rest)
           \<and> items = map py_strip (py_split CHR '','' rest)"
  using assms
  by (auto simp add: parse_message_def split: option.splits)

lemma parse_message_no_upper:
  assumes "parse_message raw = Some (mt, items)" and "item \<in> set items" and "c \<in> set item"
  shows "\<not> is_upper c"
proof -
  obtain rest where m: "match_pattern (py_lower (py_strip raw)) = Some (mt, rest)"
    and i: "items = map py_strip (py_split CHR '','' rest)"
    using parse_message_items [OF assms(1)] by blast
  obtain p where p: "p \<in> set (py_split CHR '','' rest)" and ip: "item = py_strip p"
    using assms(2) i by auto
  have "c \<in> set p"
    using assms(3) ip py_strip_subset by blast
  then have "c \<in> set rest"
    using py_split_pieces_subset [OF p] by blast
  then have "c \<in> set (py_lower (py_strip raw))"
    using match_pattern_subset(1) [OF m] by blast
  then show ?thesis
    by (rule py_lower_no_upper)
qed

lemma upper_initials:
  "is_upper CHR ''J''" "is_upper CHR ''D''" "is_upper CHR ''C''" "is_upper CHR ''R''"
  "is_upper CHR ''P''" "is_upper CHR ''S''"
  by (simp_all add: is_upper_def)

lemma food_db_key_upper:
  assumes "food_db k = Some n"
  shows "\<exists>c\<in>set k. is_upper c"
proof -
  have "k \<in> {''Jeera Rice'', ''Dal'', ''Cucumber'', ''Roti'', ''Chicken Curry'', ''Paneer'',
              ''Salad'', ''Rice''}"
    using assms by (simp add: food_db_def food_table_def split: if_splits)
  then show ?thesis
    using upper_initials by auto
qed

lemma parse_message_unknown:
  assumes "parse_message raw = Some (mt, items)" and "item \<in> set items"
  shows "food_db item = None"
proof (cases "food_db item")
  case None
  then show ?thesis .
next
  case (Some n)
  then obtain c where "c \<in> set item" "is_upper c"
    using food_db_key_upper by blast
  then show ?thesis
    using parse_message_no_upper [OF assms] by blast
qed


lemma parse_message_trailing_comma:
  "parse_message ''Log snack: Dal, ,roti,'' = Some (''snack'', [''dal'', [], ''roti'', []])"
  "match_pattern (py_lower (py_strip ''Log snack: Dal, ,roti,'')) = Some (''snack'', ''dal, ,roti,'')"
  by code_simp+

text \<open>
  Claim C10. When the trimmed, lowercased message matches the pattern with the captured
  remainder \<open>rest\<close>, the parser succeeds and its items are the pieces of the plain split
  of \<open>rest\<close> at the commas, each stripped of surrounding whitespace. The pieces are those
  of a naive split: joined with commas they give \<open>rest\<close> back, none contains a comma,
  and there is one more of them than there are commas, so that no empty piece is dropped.
  A remainder that ends in a comma gives an empty string as the last item.
\<close>

theorem webhook_items_naive_split:
  assumes "match_pattern (py_lower (py_strip raw)) = Some (mt, rest)"
  shows "parse_message raw = Some (mt, map py_strip (py_split CHR '','' rest))
    \<and> py_join '','' (py_split CHR '','' rest) = rest
    \<and> (\<forall>p\<in>set (py_split CHR '','' rest). CHR '','' \<notin> set p)
    \<and> length (map py_strip (py_split CHR '','' rest)) = Suc (count_list rest CHR '','')
    \<and> (last rest = CHR '','' \<longrightarrow> last (map py_strip (py_split CHR '','' rest)) = [])"
proof -
  have ne: "rest \<noteq> []"
    using match_pattern_subset(3) [OF assms] .
  have "last rest = CHR '','' \<longrightarrow> last (py_split CHR '','' rest) = []"
    using last_py_split [OF ne] by blast
  then have l: "last rest = CHR '','' \<longrightarrow> last (map py_strip (py_split CHR '','' rest)) = []"
    by (simp add: last_map py_split_not_Nil py_strip_Nil)
  have j: "py_join '','' (py_split CHR '','' rest) = rest"
    using py_join_split [of "CHR '',''" rest] by simp
  show ?thesis
    using assms l j py_split_no_sep [of _ "CHR '',''" rest]
    by (simp add: parse_message_def length_py_split)
qed

theorem webhook_items_naive_split_witness:
  "match_pattern (py_lower (py_strip ''Log snack: Dal, ,roti,'')) = Some (''snack'', ''dal, ,roti,'')
   \<and> parse_message ''Log snack: Dal, ,roti,'' = Some (''snack'', [''dal'', [], ''roti'', []])
   \<and> last ''dal, ,roti,'' = CHR '',''
   \<and> last (map py_strip (py_split CHR '','' ''dal, ,roti,'')) = []
   \<and> length (map py_strip (py_split CHR '','' ''dal, ,roti,'')) = 4"
proof -
  have m: "match_pattern (py_lower (py_strip ''Log snack: Dal, ,roti,'')) =
      Some (''snack'', ''dal, ,roti,'')"
    by (rule parse_message_trailing_comma(2))
  have p: "parse_message ''Log snack: Dal, ,roti,'' = Some (''snack'', [''dal'', [], ''roti'', []])"
    by (rule parse_message_trailing_comma(1))
  have l: "last ''dal, ,roti,'' = CHR '',''"
    by simp
  have c: "Suc (count_list ''dal, ,roti,'' CHR '','') = 4"
    by simp
  show ?thesis
    using webhook_items_naive_split [OF m] m p l c
    by presburger
qed


section \<open>What the webhook records\<close>

lemma parse_message_zero_nutrition:
  assumes "parse_message raw = Some (mt, items)"
  shows "calculate_nutrition items = zero_nutrition"
proof -
  have "\<forall>x\<in>set items. food_db x = None"
    using parse_message_unknown [OF assms] by blast
  then have "recognized_facts items = []"
    by (rule recognized_facts_unknown)
  then show ?thesis
    by (simp add: calculate_nutrition_sum sum_facts_Nil)
qed

lemma provision_user_meals:
  "provision_user now s user = Inr s1 \<Longrightarrow> meals_db s1 = meals_db s"
  by (auto simp add: provision_user_def split: sum.splits if_splits)

lemma webhook_not_logged:
  assumes "webhook now s data = (r, s')" and "status_code r \<noteq> 201"
  shows "s' = s"
  using assms
  by (auto simp add: webhook_def Let_def split: option.splits sum.splits prod.splits)

lemma webhook_logged:
  assumes "webhook now s data = (r, s')" and "status_code r = 201"
  shows "\<exists>raw mt items s1 entry.
           map_of data ''message'' = Some (JStr raw)
         \<and> parse_message raw = Some (mt, items)
         \<and> r = MealLogged mt items (calculate_nutrition items)
         \<and> s' = s1\<lparr>meals_db := meals_db s @ [entry]\<rparr>
         \<and> foodItems entry = items
         \<and> nutrition entry = calculate_nutrition items"
proof -
  obtain m where m: "map_of data ''message'' = Some m"
    using assms by (cases "map_of data ''message''") (auto simp add: webhook_def)
  obtain raw where raw: "m = JStr raw"
    using assms m by (cases m) (auto simp add: webhook_def)
  obtain mt items where p: "parse_message raw = Some (mt, items)"
    using assms m raw by (cases "parse_message raw") (auto simp add: webhook_def Let_def)
  let ?user = "case map_of data ''user'' of None \<Rightarrow> JStr ''default_user'' | Some u \<Rightarrow> u"
  obtain s1 where s1: "provision_user now s ?user = Inr s1"
    using assms m raw p
    by (cases "provision_user now s ?user") (auto simp add: webhook_def Let_def)
  have ms: "meals_db s1 = meals_db s"
    using provision_user_meals [OF s1] .
  have "r = MealLogged mt items (calculate_nutrition items)"
    and "s' = s1\<lparr>meals_db := meals_db s @
           [\<lparr>userId = ?user, mealType = py_capitalize mt, foodItems = items,
             nutrition = calculate_nutrition items, loggedAt = now\<rparr>]\<rparr>"
    using assms(1) m raw p s1 ms by (auto simp add: webhook_def Let_def)
  then show ?thesis
    using m raw p by force
qed

lemma catalog_keys_upper: "k \<in> dom food_db \<Longrightarrow> \<exists>c\<in>set k. is_upper c"
  using food_db_key_upper by blast

text \<open>
  Claim C2. The items the webhook parses are pieces of the lowercased message, so none of
  their characters is an uppercase letter, while every key of the catalog contains one:
  no parsed item is in the catalog and the totals of the parsed items are zero. Hence a
  webhook request that is answered with status 201 appends exactly one meal entry, and
  the nutrition of that entry (and of the response) is all zero; a request with any other
  answer leaves the stores as they were.
\<close>

theorem webhook_nutrition_zero:
  "(parse_message raw = Some (mt, items) \<longrightarrow>
      calculate_nutrition items = zero_nutrition
    \<and> (\<forall>item\<in>set items. food_db item = None \<and> (\<forall>c\<in>set item. \<not> is_upper c)))
   \<and> (\<forall>k\<in>dom food_db. \<exists>c\<in>set k. is_upper c)
   \<and> (webhook now s data = (r, s') \<and> status_code r = 201 \<longrightarrow>
      (\<exists>mt' items' s1 entry.
          r = MealLogged mt' items' zero_nutrition
        \<and> s' = s1\<lparr>meals_db := meals_db s @ [entry]\<rparr>
        \<and> foodItems entry = items'
        \<and> nutrition entry = zero_nutrition))
   \<and> (webhook now s data = (r, s') \<and> status_code r \<noteq> 201 \<longrightarrow> s' = s)"
proof (intro conjI impI)
  assume p: "parse_message raw = Some (mt, items)"
  show "calculate_nutrition items = zero_nutrition"
    using p by (rule parse_message_zero_nutrition)
  show "\<forall>item\<in>set items. food_db item = None \<and> (\<forall>c\<in>set item. \<not> is_upper c)"
    using parse_message_unknown [OF p] parse_message_no_upper [OF p] by blast
next
  show "\<forall>k\<in>dom food_db. \<exists>c\<in>set k. is_upper c"
    using catalog_keys_upper by blast
next
  assume a: "webhook now s data = (r, s') \<and> status_code r = 201"
  then obtain raw' mt' items' s1 entry where
    w: "parse_message raw' = Some (mt', items')"
      "r = MealLogged mt' items' (calculate_nutrition items')"
      "s' = s1\<lparr>meals_db := meals_db s @ [entry]\<rparr>"
      "foodItems entry = items'"
      "nutrition entry = calculate_nutrition items'"
    using webhook_logged [of now s data r s'] by blast
  have z: "calculate_nutrition items' = zero_nutrition"
    using w(1) by (rule parse_message_zero_nutrition)
  show "\<exists>mt' items' s1 entry.
          r = MealLogged mt' items' zero_nutrition
        \<and> s' = s1\<lparr>meals_db := meals_db s @ [entry]\<rparr>
        \<and> foodItems entry = items'
        \<and> nutrition entry = zero_nutrition"
    using w(2-5) z by metis
next
  assume "webhook now s data = (r, s') \<and> status_code r \<noteq> 201"
  then show "s' = s"
    using webhook_not_logged by blast
qed

lemma parse_message_dal: "parse_message ''Log Dinner: Dal, Rice'' = Some (''dinner'', [''dal'', ''rice''])"
  by code_simp

lemma py_capitalize_dinner: "py_capitalize ''dinner'' = ''Dinner''"
  by code_simp

lemma bmr_default:
  "calculate_bmr ''male'' (Finite 70) (Finite 170) (Finite 25) = Inr (Finite 1700.057)"
  by (simp add: calculate_bmr_def float_sub_def py_lower_male)

lemma webhook_example:
  "webhook ''2024-05-01T12:00:00'' empty_state
      [(''message'', JStr ''Log Dinner: Dal, Rice''), (''user'', JStr ''bob'')] =
    (MealLogged ''dinner'' [''dal'', ''rice''] zero_nutrition,
     \<lparr>users_db = [JStr ''bob'' \<mapsto>
         \<lparr>name = JStr ''bob'', age = Finite 25, weight = Finite 70, height = Finite 170,
          gender = ''male'', goal = JStr ''maintain'', bmr = Finite 1700.057,
          registered_at = ''2024-05-01T12:00:00''\<rparr>],
      meals_db = [\<lparr>userId = JStr ''bob'', mealType = ''Dinner'', foodItems = [''dal'', ''rice''],
         nutrition = zero_nutrition, loggedAt = ''2024-05-01T12:00:00''\<rparr>]\<rparr>)"
  by (simp add: webhook_def parse_message_dal provision_user_def default_user_def bmr_default
      empty_state_def py_capitalize_dinner calculate_nutrition_def food_db_def food_table_def
      Let_def)


theorem webhook_nutrition_zero_witness:
  "parse_message ''Log Dinner: Dal, Rice'' = Some (''dinner'', [''dal'', ''rice''])
   \<and> calculate_nutrition [''dal'', ''rice''] = zero_nutrition
   \<and> food_db ''dal'' = None
   \<and> ''Dal'' \<in> dom food_db
   \<and> fst (webhook ''2024-05-01T12:00:00'' empty_state
        [(''message'', JStr ''Log Dinner: Dal, Rice''), (''user'', JStr ''bob'')]) =
       MealLogged ''dinner'' [''dal'', ''rice''] zero_nutrition"
proof -
  have p: "parse_message ''Log Dinner: Dal, Rice'' = Some (''dinner'', [''dal'', ''rice''])"
    by (rule parse_message_dal)
  have d: "''Dal'' \<in> dom food_db"
    by (simp add: food_db_def food_table_def)
  have "calculate_nutrition [''dal'', ''rice''] = zero_nutrition \<and> food_db ''dal'' = None"
    using p webhook_nutrition_zero
      [of "''Log Dinner: Dal, Rice''" "''dinner''" "[''dal'', ''rice'']"]
    by simp
  then show ?thesis
    using p d by (simp add: webhook_example)
qed

text \<open>
  Claim C3, evaluated on the program. A webhook request of the unknown user \<open>bob\<close>
  stores a default record whose \<open>bmr\<close> is the value \<^verbatim>\<open>calculate_bmr("male", 70, 170, 25)\<close>
  returns, 1700.057: it has three decimals, and \<^verbatim>\<open>round\<close> would have made it 1700.06.
\<close>

theorem webhook_default_bmr_not_rounded:
  "map_option bmr
     (users_db
        (snd (webhook ''2024-05-01T12:00:00'' empty_state
           [(''message'', JStr ''Log Dinner: Dal, Rice''), (''user'', JStr ''bob'')]))
        (JStr ''bob'')) = Some (Finite 1700.057)
   \<and> \<not> is_rounded2 1700.057
   \<and> round2 1700.057 = 1700.06"
proof (intro conjI)
  show "map_option bmr
     (users_db
        (snd (webhook ''2024-05-01T12:00:00'' empty_state
           [(''message'', JStr ''Log Dinner: Dal, Rice''), (''user'', JStr ''bob'')]))
        (JStr ''bob'')) = Some (Finite 1700.057)"
    by (simp add: webhook_example)
  show "\<not> is_rounded2 1700.057"
    by (simp add: is_rounded2_def)
  show "round2 1700.057 = 1700.06"
    by (simp add: round2_def round_def)
qed

text \<open>The registration stores the BMR after \<^verbatim>\<open>round(bmr, 2)\<close>.\<close>

lemma is_rounded2_round2: "is_rounded2 (round2 x)"
  by (simp add: is_rounded2_def round2_def)

lemma create_user_bmr:
  "create_user pf rnd now data username = Inr u \<Longrightarrow>
     \<exists>g w h a b. calculate_bmr g w h a = Inr b \<and> bmr u = py_round2 rnd b"
  by (auto simp add: create_user_def split: sum.splits) blast


section \<open>Registration\<close>

lemma register_user_unchanged:
  assumes "register_user pf rnd now s data = (r, s')" and "\<forall>u. r \<noteq> Registered u"
  shows "s' = s"
  using assms
  by (auto simp add: register_user_def Let_def split: if_splits sum.splits)

lemma register_user_Registered:
  assumes "register_user pf rnd now s data = (Registered u, s')"
  shows "\<exists>nm. str_item data ''name'' = Inr nm
           \<and> validate_user_data pf data = Inr []
           \<and> users_db s (JStr (py_strip nm)) = None
           \<and> create_user pf rnd now data (py_strip nm) = Inr u
           \<and> s' = s\<lparr>users_db := (users_db s)(JStr (py_strip nm) \<mapsto> u)\<rparr>"
  using assms
  by (auto simp add: register_user_def Let_def split: if_splits sum.splits)

lemma validate_Nil_not_valid: "validate_user_data pf [] \<noteq> Inr []"
  by (simp add: validate_user_data_def check_number_def check_gender_def required_fields_def)

lemma register_user_Conflict:
  assumes "validate_user_data pf data = Inr []"
    and "str_item data ''name'' = Inr nm"
    and "users_db s (JStr (py_strip nm)) \<noteq> None"
  shows "register_user pf rnd now s data = (Conflict, s)"
proof -
  have "data \<noteq> []"
    using assms(1) validate_Nil_not_valid by auto
  then show ?thesis
    using assms by (auto simp add: register_user_def Let_def)
qed

lemma str_item_name:
  "str_item data ''name'' = Inr nm \<longleftrightarrow> map_of data ''name'' = Some (JStr nm)"
proof (cases "map_of data ''name''")
  case None
  then show ?thesis by (simp add: str_item_def get_item_def)
next
  case (Some v)
  then show ?thesis by (cases v) (simp_all add: str_item_def get_item_def)
qed


lemma py_strip_bob: "py_strip ''bob'' = ''bob''" "py_strip '' bob '' = ''bob''"
  by code_simp+

lemma validate_bob: "validate_user_data pf bob_request = Inr []"
  by (simp add: bob_request_def validate_user_data_def check_number_def check_gender_def
      required_fields_def py_lower_male)

lemma create_bob:
  "create_user pf round2 ''2024-05-01T12:00:00'' bob_request ''bob'' = Inr bob_record"
  by (simp add: bob_request_def bob_record_def create_user_def str_item_def float_item_def
      get_item_def calculate_bmr_def float_sub_def py_lower_male py_round2_def round2_def
      round_def)

lemma register_bob:
  "register_user pf round2 ''2024-05-01T12:00:00'' empty_state bob_request =
     (Registered bob_record, \<lparr>users_db = [JStr ''bob'' \<mapsto> bob_record], meals_db = []\<rparr>)"
proof -
  have n: "str_item bob_request ''name'' = Inr ''bob''"
    by (simp add: bob_request_def str_item_def get_item_def)
  have e: "bob_request \<noteq> []"
    by (simp add: bob_request_def)
  show ?thesis
    using e by (simp add: register_user_def validate_bob n py_strip_bob create_bob empty_state_def)
qed

lemma register_bob_again_invalid:
  "register_user pf rnd ''2024-05-02T08:00:00''
      \<lparr>users_db = [JStr ''bob'' \<mapsto> bob_record], meals_db = []\<rparr>
      [(''name'', JStr ''bob''), (''age'', JNum (Finite 200)), (''weight'', JNum (Finite 70)),
       (''height'', JNum (Finite 170)), (''gender'', JStr ''male''), (''goal'', JStr ''lose'')] =
     (ValidationFailed [''Age must be between 1 and 150''],
      \<lparr>users_db = [JStr ''bob'' \<mapsto> bob_record], meals_db = []\<rparr>)"
  by (simp add: register_user_def validate_user_data_def check_number_def check_gender_def
      required_fields_def py_lower_male)

text \<open>
  Claim C7, as the specification words it, fails where the second call does not pass the
  validation: the endpoint validates before it looks the name up, so a second request with
  the name of the registered user \<open>bob\<close> and the age 200 is answered with the
  validation failure, not with the conflict.
\<close>

theorem register_same_name_counterexample:
  "fst (register_user decimal_float round2 ''2024-05-01T12:00:00'' empty_state bob_request) =
     Registered bob_record
   \<and> fst (register_user decimal_float round2 ''2024-05-02T08:00:00''
        (snd (register_user decimal_float round2 ''2024-05-01T12:00:00'' empty_state bob_request))
        [(''name'', JStr ''bob''), (''age'', JNum (Finite 200)), (''weight'', JNum (Finite 70)),
         (''height'', JNum (Finite 170)), (''gender'', JStr ''male''), (''goal'', JStr ''lose'')])
       \<noteq> Conflict"
  by (simp add: register_bob register_bob_again_invalid)

lemma register_user_invalid:
  assumes "data \<noteq> []"
  shows "validate_user_data pf data = Inl e \<Longrightarrow>
           register_user pf rnd now s data = (ServerError e, s)"
    and "validate_user_data pf data = Inr errs \<Longrightarrow> errs \<noteq> [] \<Longrightarrow>
           register_user pf rnd now s data = (ValidationFailed errs, s)"
  using assms by (simp_all add: register_user_def)

text \<open>
  Claim C7, amended. After a successful registration, a further call whose name, trimmed,
  is the trimmed name of the first call changes no state, whatever it returns: the user
  store still holds under that name exactly the record the first call created, and no
  meal entry has been added. If the input of the further call passes the validation, the
  call fails with Conflict; in particular this is so when the first input is sent again.
  Otherwise it fails with the error of the validation: with the list of messages when the
  validation returns a non-empty list, with the server error when the validation raises.
\<close>

theorem register_same_name_conflict:
  assumes "register_user pf rnd now1 s data1 = (Registered u, s1)"
    and "map_of data1 ''name'' = Some (JStr nm1)"
    and "map_of data2 ''name'' = Some (JStr nm2)"
    and "py_strip nm2 = py_strip nm1"
  shows "users_db s1 (JStr (py_strip nm1)) = Some u
    \<and> meals_db s1 = meals_db s
    \<and> snd (register_user pf rnd now2 s1 data2) = s1
    \<and> (validate_user_data pf data2 = Inr [] \<longrightarrow>
         register_user pf rnd now2 s1 data2 = (Conflict, s1))
    \<and> register_user pf rnd now2 s1 data1 = (Conflict, s1)
    \<and> (\<forall>errs. validate_user_data pf data2 = Inr errs \<and> errs \<noteq> [] \<longrightarrow>
         register_user pf rnd now2 s1 data2 = (ValidationFailed errs, s1))
    \<and> (\<forall>e. validate_user_data pf data2 = Inl e \<longrightarrow>
         register_user pf rnd now2 s1 data2 = (ServerError e, s1))"
proof -
  have n1: "str_item data1 ''name'' = Inr nm1"
    using assms(2) by (simp add: str_item_name)
  have n2: "str_item data2 ''name'' = Inr nm2"
    using assms(3) by (simp add: str_item_name)
  have d2: "data2 \<noteq> []"
    using assms(3) by auto
  have v1: "validate_user_data pf data1 = Inr []"
    and s1: "s1 = s\<lparr>users_db := (users_db s)(JStr (py_strip nm1) \<mapsto> u)\<rparr>"
    using register_user_Registered [OF assms(1)] n1 by auto
  have k: "users_db s1 (JStr (py_strip nm1)) = Some u"
    by (simp add: s1)
  have m: "meals_db s1 = meals_db s"
    by (simp add: s1)
  have k2: "users_db s1 (JStr (py_strip nm2)) \<noteq> None"
    using k assms(4) by simp
  have c2: "register_user pf rnd now2 s1 data2 = (Conflict, s1)"
    if "validate_user_data pf data2 = Inr []"
    using that n2 k2 by (rule register_user_Conflict)
  have k1: "users_db s1 (JStr (py_strip nm1)) \<noteq> None"
    using k by simp
  have c1: "register_user pf rnd now2 s1 data1 = (Conflict, s1)"
    using v1 n1 k1 by (rule register_user_Conflict)
  have f: "register_user pf rnd now2 s1 data2 = (ValidationFailed errs, s1)"
    if "validate_user_data pf data2 = Inr errs" and "errs \<noteq> []" for errs
    using that by (rule register_user_invalid(2) [OF d2])
  have x: "register_user pf rnd now2 s1 data2 = (ServerError e, s1)"
    if "validate_user_data pf data2 = Inl e" for e
    using that by (rule register_user_invalid(1) [OF d2])
  have u: "snd (register_user pf rnd now2 s1 data2) = s1"
  proof -
    obtain r s2 where r: "register_user pf rnd now2 s1 data2 = (r, s2)"
      by (cases "register_user pf rnd now2 s1 data2") auto
    have "r \<noteq> Registered u'" for u'
    proof
      assume "r = Registered u'"
      then have "users_db s1 (JStr (py_strip nm2)) = None"
        using register_user_Registered [of pf rnd now2 s1 data2 u' s2] r n2 by auto
      then show False
        using k2 by simp
    qed
    then have "s2 = s1"
      using register_user_unchanged [OF r] by blast
    then show ?thesis
      using r by simp
  qed
  show ?thesis
    using k m u c2 c1 f x by blast
qed

theorem register_same_name_conflict_witness:
  "register_user decimal_float round2 ''2024-05-01T12:00:00'' empty_state bob_request =
     (Registered bob_record, \<lparr>users_db = [JStr ''bob'' \<mapsto> bob_record], meals_db = []\<rparr>)
   \<and> py_strip '' bob '' = py_strip ''bob''
   \<and> validate_user_data decimal_float ((''name'', JStr '' bob '') # tl bob_request) = Inr []
   \<and> register_user decimal_float round2 ''2024-05-02T08:00:00''
        \<lparr>users_db = [JStr ''bob'' \<mapsto> bob_record], meals_db = []\<rparr>
        ((''name'', JStr '' bob '') # tl bob_request) =
       (Conflict, \<lparr>users_db = [JStr ''bob'' \<mapsto> bob_record], meals_db = []\<rparr>)
   \<and> register_user decimal_float round2 ''2024-05-02T08:00:00''
        \<lparr>users_db = [JStr ''bob'' \<mapsto> bob_record], meals_db = []\<rparr> bob_request =
       (Conflict, \<lparr>users_db = [JStr ''bob'' \<mapsto> bob_record], meals_db = []\<rparr>)
   \<and> validate_user_data decimal_float [(''name'', JStr ''bob''), (''age'', JNull)] =
       Inl TypeError
   \<and> register_user decimal_float round2 ''2024-05-02T08:00:00''
        \<lparr>users_db = [JStr ''bob'' \<mapsto> bob_record], meals_db = []\<rparr>
        [(''name'', JStr ''bob''), (''age'', JNull)] =
       (ServerError TypeError, \<lparr>users_db = [JStr ''bob'' \<mapsto> bob_record], meals_db = []\<rparr>)
   \<and> validate_user_data decimal_float [(''name'', JStr ''bob'')] =
       Inr [''age is required'', ''weight is required'', ''height is required'',
            ''gender is required'', ''goal is required'']
   \<and> register_user decimal_float round2 ''2024-05-02T08:00:00''
        \<lparr>users_db = [JStr ''bob'' \<mapsto> bob_record], meals_db = []\<rparr>
        [(''name'', JStr ''bob'')] =
       (ValidationFailed
          [''age is required'', ''weight is required'', ''height is required'',
           ''gender is required'', ''goal is required''],
        \<lparr>users_db = [JStr ''bob'' \<mapsto> bob_record], meals_db = []\<rparr>)"
proof -
  have r: "register_user decimal_float round2 ''2024-05-01T12:00:00'' empty_state bob_request =
     (Registered bob_record, \<lparr>users_db = [JStr ''bob'' \<mapsto> bob_record], meals_db = []\<rparr>)"
    by (rule register_bob)
  have n1: "map_of bob_request ''name'' = Some (JStr ''bob'')"
    by (simp add: bob_request_def)
  have n2: "map_of ((''name'', JStr '' bob '') # tl bob_request) ''name'' = Some (JStr '' bob '')"
    by simp
  have n3: "map_of [(''name'', JStr ''bob''), (''age'', JNull)] ''name'' = Some (JStr ''bob'')"
    by simp
  have n4: "map_of [(''name'', JStr ''bob'')] ''name'' = Some (JStr ''bob'')"
    by simp
  have st: "py_strip '' bob '' = py_strip ''bob''"
    by (simp add: py_strip_bob)
  have v: "validate_user_data decimal_float ((''name'', JStr '' bob '') # tl bob_request) = Inr []"
    by (simp add: bob_request_def validate_user_data_def check_number_def check_gender_def
        required_fields_def py_lower_male)
  have v3: "validate_user_data decimal_float [(''name'', JStr ''bob''), (''age'', JNull)] =
       Inl TypeError"
    by (simp add: validate_user_data_def check_number_def required_fields_def)
  have v4: "validate_user_data decimal_float [(''name'', JStr ''bob'')] =
       Inr [''age is required'', ''weight is required'', ''height is required'',
            ''gender is required'', ''goal is required'']"
    by (simp add: validate_user_data_def check_number_def check_gender_def required_fields_def)
  have a: "register_user decimal_float round2 ''2024-05-02T08:00:00''
        \<lparr>users_db = [JStr ''bob'' \<mapsto> bob_record], meals_db = []\<rparr>
        ((''name'', JStr '' bob '') # tl bob_request) =
       (Conflict, \<lparr>users_db = [JStr ''bob'' \<mapsto> bob_record], meals_db = []\<rparr>)
   \<and> register_user decimal_float round2 ''2024-05-02T08:00:00''
        \<lparr>users_db = [JStr ''bob'' \<mapsto> bob_record], meals_db = []\<rparr> bob_request =
       (Conflict, \<lparr>users_db = [JStr ''bob'' \<mapsto> bob_record], meals_db = []\<rparr>)"
    using register_same_name_conflict [OF r n1 n2 st, of "''2024-05-02T08:00:00''"] v
    by simp
  have b: "register_user decimal_float round2 ''2024-05-02T08:00:00''
        \<lparr>users_db = [JStr ''bob'' \<mapsto> bob_record], meals_db = []\<rparr>
        [(''name'', JStr ''bob''), (''age'', JNull)] =
       (ServerError TypeError, \<lparr>users_db = [JStr ''bob'' \<mapsto> bob_record], meals_db = []\<rparr>)"
    using register_same_name_conflict [OF r n1 n3 refl, of "''2024-05-02T08:00:00''"] v3
    by simp
  have c: "register_user decimal_float round2 ''2024-05-02T08:00:00''
        \<lparr>users_db = [JStr ''bob'' \<mapsto> bob_record], meals_db = []\<rparr>
        [(''name'', JStr ''bob'')] =
       (ValidationFailed
          [''age is required'', ''weight is required'', ''height is required'',
           ''gender is required'', ''goal is required''],
        \<lparr>users_db = [JStr ''bob'' \<mapsto> bob_record], meals_db = []\<rparr>)"
    using register_same_name_conflict [OF r n1 n4 refl, of "''2024-05-02T08:00:00''"] v4
    by simp
  show ?thesis
    using r st v a b v3 c v4 by simp
qed

end
